theory Spec2Isabelle
  imports Main "HOL-Library.Word"
begin

section \<open>Errors\<close>

text \<open>
  The error codes of \<^verbatim>\<open>CanopyErrorCode\<close> (types.ts, reproduced in README.md) and the
  error class \<^verbatim>\<open>CanopyError(message, code, details)\<close>. The \<^verbatim>\<open>details\<close> payload is
  diagnostic only and is not part of the embedding. Every \<^verbatim>\<open>throw\<close> of the source is
  an \<open>Inl\<close> result here. \<open>NativeError\<close> stands for an exception that is not a
  \<^verbatim>\<open>CanopyError\<close> (a rejected fetch, a failed view call, a TypeError).
\<close>

datatype CanopyErrorCode =
    VAULT_PAUSED
  | NETWORK_ERROR
  | VAULT_NOT_FOUND
  | AMOUNT_TOO_SMALL
  | INVALID_VAULT_ADDRESS
  | INVALID_USER_ADDRESS
  | INVALID_TOKEN_ADDRESS
  | INVALID_POOL_ADDRESS
  | INVALID_INPUT
  | TRANSACTION_BUILD_FAILED
  | INSUFFICIENT_BALANCE
  | PACKET_GENERATION_FAILED
  | STAKING_POOLS_NOT_FOUND

datatype error =
    CanopyError string CanopyErrorCode
  | NativeError string

fun error_code :: "error \<Rightarrow> CanopyErrorCode option" where
  "error_code (CanopyError msg c) = Some c"
| "error_code (NativeError msg) = None"

type_synonym byte = "8 word"

section \<open>StrategyAllocator (strategy-allocator.ts, the second document of packet-generator.ts)\<close>

record AllocationMap =
  strategies :: "string list"
  amounts :: "int list"

text \<open>
  \<^verbatim>\<open>a / b\<close> on bigint truncates towards zero, whereas \<open>div\<close> on \<open>int\<close> rounds down.
  A zero divisor raises a RangeError in the source; the only divisor used below is the
  literal \<^verbatim>\<open>1000n\<close>.
\<close>

definition bigint_div :: "int \<Rightarrow> int \<Rightarrow> int" where
  "bigint_div a b = sgn a * sgn b * (\<bar>a\<bar> div \<bar>b\<bar>)"

definition validateAllocation :: "AllocationMap \<Rightarrow> int \<Rightarrow> error + unit" where
  "validateAllocation allocation totalAmount =
     (if length (strategies allocation) = 0 then
        Inl (CanopyError ''No strategies available for allocation'' TRANSACTION_BUILD_FAILED)
      else if length (strategies allocation) \<noteq> length (amounts allocation) then
        Inl (CanopyError ''Mismatched strategies and amounts'' TRANSACTION_BUILD_FAILED)
      else
        let allocatedTotal = foldl (\<lambda>sum amount. sum + amount) 0 (amounts allocation);
            tolerance = bigint_div totalAmount 1000;
            diff = (if allocatedTotal > totalAmount
                    then allocatedTotal - totalAmount
                    else totalAmount - allocatedTotal)
        in if diff > tolerance then
             Inl (CanopyError ''Allocation total does not match deposit amount''
                    TRANSACTION_BUILD_FAILED)
           else Inr ())"

section \<open>PacketGenerator.createPacketArrays (packet-generator.ts)\<close>

record PacketData =
  strategy :: string
  packet :: "byte list"

record PacketArrays =
  packetStrategies :: "string list"
  packetData :: "byte list list"

text \<open>
  The two \<^verbatim>\<open>for\<close> loops of \<^verbatim>\<open>createPacketArrays\<close>, pushing onto the two result arrays.
  \<^verbatim>\<open>packets.find(p => p.strategy === strategy)\<close> is \<open>find\<close>: the first packet of that
  strategy, or nothing.
\<close>

fun allocation_loop :: "PacketData list \<Rightarrow> string list \<Rightarrow> PacketArrays \<Rightarrow> PacketArrays" where
  "allocation_loop packets [] acc = acc"
| "allocation_loop packets (s # rest) acc =
     (case find (\<lambda>p. strategy p = s) packets of
        Some p \<Rightarrow>
          if length (packet p) > 0 then
            allocation_loop packets rest
              \<lparr>packetStrategies = packetStrategies acc @ [s],
               packetData = packetData acc @ [packet p]\<rparr>
          else allocation_loop packets rest acc
      | None \<Rightarrow> allocation_loop packets rest acc)"

fun packet_loop :: "PacketData list \<Rightarrow> PacketArrays \<Rightarrow> PacketArrays" where
  "packet_loop [] acc = acc"
| "packet_loop (p # rest) acc =
     (if length (packet p) > 0 then
        packet_loop rest
          \<lparr>packetStrategies = packetStrategies acc @ [strategy p],
           packetData = packetData acc @ [packet p]\<rparr>
      else packet_loop rest acc)"

definition createPacketArrays :: "PacketData list \<Rightarrow> AllocationMap option \<Rightarrow> PacketArrays" where
  "createPacketArrays packets allocation =
     (if length packets = 0 then \<lparr>packetStrategies = [], packetData = []\<rparr>
      else case allocation of
        Some al \<Rightarrow> allocation_loop packets (strategies al) \<lparr>packetStrategies = [], packetData = []\<rparr>
      | None \<Rightarrow> packet_loop packets \<lparr>packetStrategies = [], packetData = []\<rparr>)"

text \<open>
  The bytes that \<^verbatim>\<open>find\<close> yields for a strategy: those of the first packet carrying
  that strategy, and no bytes when the packet list has none. Used to state what the
  allocation loop keeps.
\<close>

definition found_packet :: "PacketData list \<Rightarrow> string \<Rightarrow> byte list" where
  "found_packet packets s =
     (case find (\<lambda>p. strategy p = s) packets of Some p \<Rightarrow> packet p | None \<Rightarrow> [])"

section \<open>Decimal text of a bigint\<close>

text \<open>
  \<^verbatim>\<open>amount.toString()\<close> and \<^verbatim>\<open>String(amount)\<close> on a bigint: the decimal digits, most
  significant first, with a leading minus sign for a negative value.
\<close>

definition digit_char :: "nat \<Rightarrow> char" where
  "digit_char n = char_of (48 + n)"

function nat_toString :: "nat \<Rightarrow> string" where
  "nat_toString n = (if n < 10 then [digit_char n]
                     else nat_toString (n div 10) @ [digit_char (n mod 10)])"
  by pat_completeness auto
termination
  by (relation "measure (\<lambda>n. n)") auto

declare nat_toString.simps [simp del]

definition bigint_toString :: "int \<Rightarrow> string" where
  "bigint_toString i = (if i < 0 then CHR ''-'' # nat_toString (nat (- i))
                        else nat_toString (nat i))"

section \<open>PacketGenerator.generatePackets (packet-generator.ts)\<close>

datatype operation = OpDeposit | OpWithdraw

record MovePositionConfig =
  apiUrl :: string
  nameMap :: "string \<rightharpoonup> string"
  virtualCoinMap :: "string \<rightharpoonup> string"

record PacketGeneratorOptions =
  vaultAddress :: string
  network :: "string option"
  routerAddress :: "string option"
  virtualCoinType :: string
  movepositionConfig :: "MovePositionConfig option"

text \<open>Portfolio entries of moveposition-types.ts: \<^verbatim>\<open>{instrument: {name}, amount}\<close>.\<close>

record Holding =
  instrument_name :: string
  holding_amount :: string

record PortfolioData =
  portfolio_address :: string
  collaterals :: "Holding list"
  liabilities :: "Holding list"

record StateEntry =
  instrumentId :: string
  entry_amount :: string

record PortfolioState =
  state_collaterals :: "StateEntry list"
  state_liabilities :: "StateEntry list"

text \<open>
  A property read \<^verbatim>\<open>obj[key]\<close> on a plain object whose own entries are strings finds the
  object's own entry, or else a member that every plain object inherits from
  \<^verbatim>\<open>Object.prototype\<close> (a function, or the prototype itself for \<^verbatim>\<open>__proto__\<close>), or else
  nothing. An inherited member is named by its key; it is not a string and it is truthy.
\<close>

definition Object_prototype_members :: "string list" where
  "Object_prototype_members =
     [''constructor'', ''__defineGetter__'', ''__defineSetter__'', ''hasOwnProperty'',
      ''__lookupGetter__'', ''__lookupSetter__'', ''isPrototypeOf'', ''propertyIsEnumerable'',
      ''toString'', ''valueOf'', ''__proto__'', ''toLocaleString'']"

datatype property_value =
    OwnValue string
  | InheritedMember string
  | Undefined

definition read_property :: "(string \<rightharpoonup> string) \<Rightarrow> string \<Rightarrow> property_value" where
  "read_property obj key =
     (case obj key of
        Some v \<Rightarrow> OwnValue v
      | None \<Rightarrow> if key \<in> set Object_prototype_members then InheritedMember key else Undefined)"

text \<open>
  The request's broker name is whatever the read of \<^verbatim>\<open>nameMap[virtualCoinType]\<close> returned
  and passed the truthiness test: a non-empty string or an inherited member.
\<close>

record CreatePacketRequest =
  req_amount :: string
  req_network :: string
  signerPubkey :: string
  currentPortfolioState :: PortfolioState
  req_brokerName :: property_value

record ComputePacketParams =
  param_address :: string
  param_brokerName :: property_value
  param_amount :: string
  param_operation :: string
  movepositionApiUrl :: string
  param_network :: string

text \<open>
  The collaborators outside the repository, as functions of their request: the chain's
  view call for the exact withdrawal amount (its first result, of some type \<open>'v\<close>),
  the two conversions the source applies to that result (\<^verbatim>\<open>Number(v)\<close> being truthy,
  and \<^verbatim>\<open>BigInt(String(v))\<close>, which can throw), the two HTTP calls of the lending API
  (an \<open>Inl\<close> covers a rejected fetch, a non-ok response and a body that does not parse),
  and \<^verbatim>\<open>Hex.fromHexString(s).toUint8Array()\<close> of the Aptos SDK.
\<close>

record 'v lending_remote =
  withdrawal_amount_view :: "string \<Rightarrow> string \<Rightarrow> string \<Rightarrow> error + 'v"
  Number_truthy :: "'v \<Rightarrow> bool"
  BigInt_of_String :: "'v \<Rightarrow> error + int"
  fetch_portfolio :: "string \<Rightarrow> error + PortfolioData"
  post_packet :: "string \<Rightarrow> CreatePacketRequest \<Rightarrow> error + string"
  Hex_fromHexString :: "string \<Rightarrow> error + byte list"

definition MOVEPOSITION_SIMPLE_CONCRETE_ADDRESS :: string where
  "MOVEPOSITION_SIMPLE_CONCRETE_ADDRESS =
     ''0xd7c7b27e361434e18d2410fd02f7140a8c10d174c9be0efd5324578d243953bd''"

definition getNetworkApiName :: "string \<Rightarrow> string" where
  "getNetworkApiName net = (if net = ''movement-mainnet'' then ''movement-mainnet'' else ''aptos'')"

definition getPortfolioData :: "'v lending_remote \<Rightarrow> string \<Rightarrow> string \<Rightarrow> error + PortfolioData" where
  "getPortfolioData remote address url = fetch_portfolio remote (url @ ''/portfolios/'' @ address)"

definition computePortfolioState :: "'v lending_remote \<Rightarrow> string \<Rightarrow> string \<Rightarrow> error + PortfolioState" where
  "computePortfolioState remote address url =
     (case getPortfolioData remote address url of
        Inr portfolio \<Rightarrow>
          Inr \<lparr>state_collaterals =
                 map (\<lambda>c. \<lparr>instrumentId = instrument_name c, entry_amount = holding_amount c\<rparr>)
                     (collaterals portfolio),
               state_liabilities =
                 map (\<lambda>l. \<lparr>instrumentId = instrument_name l, entry_amount = holding_amount l\<rparr>)
                     (liabilities portfolio)\<rparr>
      | Inl e \<Rightarrow> Inl (CanopyError ''Failed to get portfolio state'' PACKET_GENERATION_FAILED))"

definition createPacket :: "'v lending_remote \<Rightarrow> string \<Rightarrow> CreatePacketRequest \<Rightarrow> string \<Rightarrow> error + string" where
  "createPacket remote operation_name request_data url =
     post_packet remote
       (url @ (if operation_name = ''lend'' then ''/brokers/lend/v2'' else ''/brokers/redeem/v2''))
       request_data"

definition computePacketData :: "'v lending_remote \<Rightarrow> ComputePacketParams \<Rightarrow> error + byte list" where
  "computePacketData remote params =
     (case computePortfolioState remote (param_address params) (movepositionApiUrl params) of
        Inl e \<Rightarrow> Inl (CanopyError ''Failed to compute packet data'' PACKET_GENERATION_FAILED)
      | Inr portfolioState \<Rightarrow>
          (case createPacket remote (param_operation params)
                  \<lparr>req_amount = param_amount params,
                   req_network = ''aptos'',
                   signerPubkey = param_address params,
                   currentPortfolioState = portfolioState,
                   req_brokerName = param_brokerName params\<rparr>
                  (movepositionApiUrl params) of
             Inl e \<Rightarrow> Inl (CanopyError ''Failed to compute packet data'' PACKET_GENERATION_FAILED)
           | Inr packet_hex \<Rightarrow>
               (case Hex_fromHexString remote packet_hex of
                  Inl e \<Rightarrow> Inl (CanopyError ''Failed to compute packet data'' PACKET_GENERATION_FAILED)
                | Inr bytes \<Rightarrow> Inr bytes)))"

definition getExactAmount :: "'v lending_remote \<Rightarrow> string \<Rightarrow> int \<Rightarrow> string \<Rightarrow> int" where
  "getExactAmount remote strategyAddress amount pairedCoinType =
     (case withdrawal_amount_view remote strategyAddress (bigint_toString amount) pairedCoinType of
        Inl e \<Rightarrow> 0
      | Inr exactAmount \<Rightarrow>
          if Number_truthy remote exactAmount then
            (case BigInt_of_String remote exactAmount of Inl e \<Rightarrow> 0 | Inr n \<Rightarrow> n)
          else 0)"

definition generateSinglePacket ::
  "'v lending_remote \<Rightarrow> string \<Rightarrow> string \<Rightarrow> int \<Rightarrow> operation \<Rightarrow> PacketGeneratorOptions
   \<Rightarrow> error + byte list" where
  "generateSinglePacket remote net strategyAddress amount operation opts =
     (case movepositionConfig opts of
        None \<Rightarrow> Inr []
      | Some config \<Rightarrow>
          if apiUrl config = [] then Inr []
          else
            let brokerName = read_property (nameMap config) (virtualCoinType opts)
            in if brokerName = Undefined \<or> brokerName = OwnValue [] then Inr []
               else
                 let exactAmount =
                       (if operation = OpWithdraw
                        then getExactAmount remote strategyAddress amount (virtualCoinType opts)
                        else amount)
                 in if exactAmount = 0 then Inr []
                    else computePacketData remote
                           \<lparr>param_address = strategyAddress,
                            param_brokerName = brokerName,
                            param_amount = bigint_toString exactAmount,
                            param_operation =
                              (if operation = OpDeposit then ''lend'' else ''redeem''),
                            movepositionApiUrl = apiUrl config,
                            param_network = getNetworkApiName net\<rparr>)"

text \<open>
  The \<^verbatim>\<open>for\<close> loop of \<^verbatim>\<open>generatePackets\<close> over the index \<open>i\<close>, reading
  \<^verbatim>\<open>strategies[i]\<close> and \<^verbatim>\<open>amounts[i]\<close> and pushing onto \<^verbatim>\<open>packets\<close>. The guard
  \<^verbatim>\<open>!strategy || amount === undefined\<close> skips the index: an empty string is falsy, and
  an index past the end of \<^verbatim>\<open>amounts\<close> reads \<^verbatim>\<open>undefined\<close>.
\<close>

fun generatePackets_loop ::
  "'v lending_remote \<Rightarrow> string \<Rightarrow> operation \<Rightarrow> PacketGeneratorOptions
   \<Rightarrow> string list \<Rightarrow> int list \<Rightarrow> PacketData list \<Rightarrow> PacketData list" where
  "generatePackets_loop remote net operation opts [] as packets = packets"
| "generatePackets_loop remote net operation opts (s # ss) [] packets =
     generatePackets_loop remote net operation opts ss [] packets"
| "generatePackets_loop remote net operation opts (s # ss) (a # as) packets =
     (if s = [] then generatePackets_loop remote net operation opts ss as packets
      else if a = 0 then
        generatePackets_loop remote net operation opts ss as
          (packets @ [\<lparr>strategy = s, packet = []\<rparr>])
      else
        (case generateSinglePacket remote net s a operation opts of
           Inr pk \<Rightarrow>
             generatePackets_loop remote net operation opts ss as
               (packets @ [\<lparr>strategy = s, packet = pk\<rparr>])
         | Inl e \<Rightarrow>
             generatePackets_loop remote net operation opts ss as
               (packets @ [\<lparr>strategy = s, packet = []\<rparr>])))"

definition generatePackets ::
  "'v lending_remote \<Rightarrow> string \<Rightarrow> string list \<Rightarrow> int list \<Rightarrow> operation
   \<Rightarrow> PacketGeneratorOptions \<Rightarrow> error + PacketData list" where
  "generatePackets remote net strats amts operation opts =
     (if length strats \<noteq> length amts then
        Inl (CanopyError ''Strategies and amounts arrays must have the same length''
               PACKET_GENERATION_FAILED)
      else Inr (generatePackets_loop remote net operation opts strats amts []))"


text \<open>
  Two sample collaborators for the concrete evaluations below: one that is unreachable,
  and one whose packet service answers for every signer but \<open>0xB\<close>.
\<close>

definition unreachable_remote :: "string lending_remote" where
  "unreachable_remote =
     \<lparr>withdrawal_amount_view = (\<lambda>s a c. Inl (NativeError ''fetch failed'')),
      Number_truthy = (\<lambda>v. False),
      BigInt_of_String = (\<lambda>v. Inl (NativeError ''SyntaxError'')),
      fetch_portfolio = (\<lambda>url. Inl (NativeError ''fetch failed'')),
      post_packet = (\<lambda>url r. Inl (NativeError ''fetch failed'')),
      Hex_fromHexString = (\<lambda>h. Inl (NativeError ''invalid hex''))\<rparr>"



section \<open>Platform detection (vault-detector.ts, transaction-builder.ts)\<close>

text \<open>
  Strings are lists of code units below 256. \<^verbatim>\<open>toLowerCase\<close> maps the capital letters
  of that range (A to Z, and U+00C0 to U+00DE without the multiplication sign U+00D7) to
  the code unit 32 above, and leaves every other code unit alone.
\<close>

definition toLowerCase_char :: "char \<Rightarrow> char" where
  "toLowerCase_char c =
     (let n = (of_char c :: nat)
      in if (65 \<le> n \<and> n \<le> 90) \<or> (192 \<le> n \<and> n \<le> 222 \<and> n \<noteq> 215)
         then char_of (n + 32) else c)"

definition toLowerCase :: "string \<Rightarrow> string" where
  "toLowerCase s = map toLowerCase_char s"

definition startsWith :: "string \<Rightarrow> string \<Rightarrow> bool" where
  "startsWith s pre = (take (length pre) s = pre)"

definition padStart :: "nat \<Rightarrow> char \<Rightarrow> string \<Rightarrow> string" where
  "padStart n c s = replicate (n - length s) c @ s"

text \<open>
  The fields of \<^verbatim>\<open>VaultBaseStrategyView\<close> and \<^verbatim>\<open>VaultView\<close> (abi-types.ts) that the
  embedded functions read; the totals, names and decimals are read by none of them.
  \<^verbatim>\<open>pairedCoinType\<close> is optional in the source. The source's field \<^verbatim>\<open>strategies\<close> is
  \<open>vault_strategies\<close> here.
\<close>

record VaultBaseStrategyView =
  strategyAddress :: string
  concreteAddress :: string

record VaultView =
  assetAddress :: string
  sharesAddress :: string
  pairedCoinType :: "string option"
  vault_strategies :: "VaultBaseStrategyView list"

definition ECHELON_SIMPLE_CONCRETE_ADDRESS :: string where
  "ECHELON_SIMPLE_CONCRETE_ADDRESS =
     ''0x5d2b6a8b6478d86f62c9d3378e2a1fa265e85e69046946632d1fecae1940e851''"

definition MERIDIAN_SIMPLE_CONCRETE_ADDRESS :: string where
  "MERIDIAN_SIMPLE_CONCRETE_ADDRESS =
     ''0x133b23036f4ac78279fd4cc75b798ccfe2d3c002585049d7483230653b924b7d''"

definition LAYERBANK_SIMPLE_CONCRETE_ADDRESS :: string where
  "LAYERBANK_SIMPLE_CONCRETE_ADDRESS =
     ''0xad1b34939f164ec6f6c0157da3a30bf9e5d408250978691872a79aa584852b85''"

text \<open>\<^verbatim>\<open>VaultDetector.normalizeAddress\<close>: no prefix in the result.\<close>

definition normalizeAddress :: "string \<Rightarrow> string" where
  "normalizeAddress v =
     (let v' = (if startsWith v ''0x'' then drop 2 v else v)
      in padStart 64 (CHR ''0'') (toLowerCase v'))"

text \<open>\<^verbatim>\<open>TransactionBuilder.normalizeAddress\<close>: the same digits behind a \<^verbatim>\<open>0x\<close> prefix.\<close>

definition TransactionBuilder_normalizeAddress :: "string \<Rightarrow> string" where
  "TransactionBuilder_normalizeAddress v =
     (let v' = (if startsWith v ''0x'' then drop 2 v else v)
      in ''0x'' @ padStart (32 * 2) (CHR ''0'') (toLowerCase v'))"

text \<open>
  \<^verbatim>\<open>vault.strategies[0]?.concreteAddress\<close> is \<^verbatim>\<open>undefined\<close> for a vault without
  strategies, and an empty string is falsy as well: both answer \<^verbatim>\<open>false\<close>.
\<close>

definition first_concrete_is :: "(string \<Rightarrow> string) \<Rightarrow> VaultView \<Rightarrow> string \<Rightarrow> bool" where
  "first_concrete_is norm vault constant =
     (case vault_strategies vault of
        [] \<Rightarrow> False
      | s # rest \<Rightarrow>
          if concreteAddress s = [] then False
          else norm (concreteAddress s) = norm constant)"

definition isMovePosition :: "VaultView \<Rightarrow> bool" where
  "isMovePosition vault = first_concrete_is normalizeAddress vault MOVEPOSITION_SIMPLE_CONCRETE_ADDRESS"

definition isEchelon :: "VaultView \<Rightarrow> bool" where
  "isEchelon vault = first_concrete_is normalizeAddress vault ECHELON_SIMPLE_CONCRETE_ADDRESS"

definition isLayerBank :: "VaultView \<Rightarrow> bool" where
  "isLayerBank vault = first_concrete_is normalizeAddress vault LAYERBANK_SIMPLE_CONCRETE_ADDRESS"

definition isMeridian :: "VaultView \<Rightarrow> bool" where
  "isMeridian vault = first_concrete_is normalizeAddress vault MERIDIAN_SIMPLE_CONCRETE_ADDRESS"

definition TransactionBuilder_isMovePosition :: "VaultView \<Rightarrow> bool" where
  "TransactionBuilder_isMovePosition vault =
     first_concrete_is TransactionBuilder_normalizeAddress vault MOVEPOSITION_SIMPLE_CONCRETE_ADDRESS"

definition TransactionBuilder_isEchelon :: "VaultView \<Rightarrow> bool" where
  "TransactionBuilder_isEchelon vault =
     first_concrete_is TransactionBuilder_normalizeAddress vault ECHELON_SIMPLE_CONCRETE_ADDRESS"

definition getPlatformName :: "VaultView \<Rightarrow> string" where
  "getPlatformName vault =
     (if isMovePosition vault then ''MovePosition''
      else if isEchelon vault then ''Echelon''
      else if isLayerBank vault then ''LayerBank''
      else if isMeridian vault then ''Meridian''
      else ''Satay'')"

text \<open>The four known platform constants with the names \<open>getPlatformName\<close> gives them.\<close>

definition known_platforms :: "(string \<times> string) list" where
  "known_platforms =
     [(MOVEPOSITION_SIMPLE_CONCRETE_ADDRESS, ''MovePosition''),
      (ECHELON_SIMPLE_CONCRETE_ADDRESS, ''Echelon''),
      (LAYERBANK_SIMPLE_CONCRETE_ADDRESS, ''LayerBank''),
      (MERIDIAN_SIMPLE_CONCRETE_ADDRESS, ''Meridian'')]"

section \<open>Decimal scaling helpers (examples/react/src/utils.ts)\<close>

text \<open>
  \<^verbatim>\<open>amount.split('.')\<close>: the segments between the separators; never an empty array.
\<close>

fun split_on :: "char \<Rightarrow> string \<Rightarrow> string list" where
  "split_on sep [] = [[]]"
| "split_on sep (c # cs) =
     (if c = sep then [] # split_on sep cs
      else case split_on sep cs of
             seg # segs \<Rightarrow> (c # seg) # segs
           | [] \<Rightarrow> [[c]])"

definition padEnd :: "nat \<Rightarrow> char \<Rightarrow> string \<Rightarrow> string" where
  "padEnd n c s = s @ replicate (n - length s) c"

definition is_digit :: "char \<Rightarrow> bool" where
  "is_digit c = (48 \<le> (of_char c :: nat) \<and> (of_char c :: nat) \<le> 57)"

definition digit_value :: "char \<Rightarrow> nat" where
  "digit_value c = of_char c - 48"

definition digits_value :: "string \<Rightarrow> nat" where
  "digits_value ds = foldl (\<lambda>acc c. 10 * acc + digit_value c) 0 ds"

text \<open>
  \<^verbatim>\<open>BigInt(text)\<close> on decimal text: the empty string is \<^verbatim>\<open>0n\<close>, a run of decimal
  digits is its value, with an optional sign in front; anything else throws a
  SyntaxError. The remaining literal forms that \<^verbatim>\<open>BigInt\<close> accepts (surrounding white
  space, the radix prefixes \<^verbatim>\<open>0x\<close>, \<^verbatim>\<open>0o\<close>, \<^verbatim>\<open>0b\<close>) are outside this embedding and
  get the same \<open>Inl\<close>; no unsigned decimal string has these forms.
\<close>

definition BigInt_of_string :: "string \<Rightarrow> error + int" where
  "BigInt_of_string s =
     (if list_all is_digit s then Inr (int (digits_value s))
      else case s of
             c # ds \<Rightarrow>
               if (c = CHR ''-'' \<or> c = CHR ''+'') \<and> ds \<noteq> [] \<and> list_all is_digit ds then
                 Inr (if c = CHR ''-'' then - int (digits_value ds) else int (digits_value ds))
               else Inl (NativeError ''SyntaxError: Cannot convert to a BigInt'')
           | [] \<Rightarrow> Inl (NativeError ''SyntaxError: Cannot convert to a BigInt''))"

definition scaleToDecimals :: "string \<Rightarrow> nat \<Rightarrow> error + int" where
  "scaleToDecimals amount decimals =
     (let segments = split_on (CHR ''.'') amount;
          whole = (case segments of w # rest \<Rightarrow> w | [] \<Rightarrow> []);
          fraction = (case segments of w # f # rest \<Rightarrow> f | _ \<Rightarrow> []);
          paddedFraction = take decimals (padEnd decimals (CHR ''0'') fraction);
          scaled = whole @ paddedFraction
      in BigInt_of_string scaled)"

text \<open>\<^verbatim>\<open>fraction.replace(/0+$/, '')\<close>: the trailing zeros are removed.\<close>

definition strip_trailing_zeros :: "string \<Rightarrow> string" where
  "strip_trailing_zeros s = rev (dropWhile (\<lambda>c. c = CHR ''0'') (rev s))"

definition scaleFromDecimals :: "int \<Rightarrow> nat \<Rightarrow> string" where
  "scaleFromDecimals amount decimals =
     (let str = padStart (decimals + 1) (CHR ''0'') (bigint_toString amount);
          insertPosition = length str - decimals;
          whole = (if take insertPosition str = [] then ''0'' else take insertPosition str);
          fraction = drop insertPosition str;
          trimmedFraction = strip_trailing_zeros fraction
      in if trimmedFraction \<noteq> [] then whole @ ''.'' @ trimmedFraction else whole)"

text \<open>
  A decimal numeral with whole part \<open>w\<close> and fractional digits \<open>f\<close>: \<open>w\<close> alone when
  there are no fractional digits, \<open>w.f\<close> otherwise.
\<close>

definition decimal_text :: "string \<Rightarrow> string \<Rightarrow> string" where
  "decimal_text w f = (if f = [] then w else w @ ''.'' @ f)"

text \<open>
  The digits of a run of decimal digits without its leading zeros, \<open>0\<close> when nothing
  else is left: the text \<open>nat_toString\<close> prints for the value of the run.
\<close>

definition canonical_digits :: "string \<Rightarrow> string" where
  "canonical_digits ds =
     (if dropWhile (\<lambda>c. c = CHR ''0'') ds = [] then ''0''
      else dropWhile (\<lambda>c. c = CHR ''0'') ds)"

section \<open>Transaction payloads\<close>

text \<open>
  \<^verbatim>\<open>InputEntryFunctionData\<close> of the Aptos SDK as the builders fill it: the entry function's
  identifier (\<open>function_id\<close>, the source's field \<^verbatim>\<open>function\<close>), the type arguments and
  the function arguments, which are strings, lists of strings or lists of byte arrays.
\<close>

datatype argument =
    ArgString string
  | ArgStrings "string list"
  | ArgBytesList "byte list list"

record InputEntryFunctionData =
  function_id :: string
  typeArguments :: "string list"
  functionArguments :: "argument list"

text \<open>
  The \<^verbatim>\<open>address\<close> fields of the ABI files under \<^verbatim>\<open>src/abis/mainnet\<close>, which are JSON
  data outside the sources at hand: they are parameters of every builder.
\<close>

record abi_addresses =
  ROUTER_ABI_address :: string
  MULTI_REWARDS_ABI_address :: string
  MULTI_REWARDS_ROUTER_ABI_address :: string

text \<open>
  The \<^verbatim>\<open>catch\<close> clause shared by the builders: a \<^verbatim>\<open>CanopyError\<close> is thrown again as it
  is, anything else is wrapped as \<open>TRANSACTION_BUILD_FAILED\<close> with the given message.
\<close>

fun rethrow_or_wrap :: "string \<Rightarrow> error + 'a \<Rightarrow> error + 'a" where
  "rethrow_or_wrap msg (Inr v) = Inr v"
| "rethrow_or_wrap msg (Inl (CanopyError m c)) = Inl (CanopyError m c)"
| "rethrow_or_wrap msg (Inl (NativeError m)) = Inl (CanopyError msg TRANSACTION_BUILD_FAILED)"

section \<open>Static pool table (constants/pool-mappings.ts)\<close>

definition STAKING_TOKEN_POOL_MAPPINGS :: "(string \<times> string list) list" where
  "STAKING_TOKEN_POOL_MAPPINGS =
     [(''0xe005014fbdd053aebf97b9a36dfeed790d337f571fa9d37690f527acb3015e02'',
       [''0x7bf3653bf8b02d19b56916daaf959b95b4564ecd35d9abdb323d0690d5fdd0e7'',
        ''0xc1d2493f1ecc4ce35726fb0a48719752ce573f6aead45f35703193c021af3001'']),
      (''0x3d871f7475a839376b5567de59807db876203c628f71c75dbeefdb60139a10f8'',
       [''0x12d57c3d4bb2b73726196d5e112406220773cba576577a47b4b45db57e578411'']),
      (''0x1d42fda1a3eac95ebcb4a35ba7f2c76c35855800c9fbf45a5255d146b5bac15'',
       [''0xf7ce62c86bb4789e9f7b9a8effbe38e53aab6b28bd536ed5f0f898ae58a0df89'',
        ''0xff22e2f44b858bcfd6477ddf1e4ee561bbc4c2624eaa33c58a51eaecfc13087b''])]"

text \<open>
  \<^verbatim>\<open>key in obj\<close> on a plain object with the given own keys: an own key, or the name of
  a member that every plain object inherits.
\<close>

definition in_operator :: "string list \<Rightarrow> string \<Rightarrow> bool" where
  "in_operator own_keys key = (key \<in> set own_keys \<or> key \<in> set Object_prototype_members)"

text \<open>
  The two lookups below are embedded on the table's own keys. That is what
  \<^verbatim>\<open>stakingToken in STAKING_TOKEN_POOL_MAPPINGS\<close> and
  \<^verbatim>\<open>STAKING_TOKEN_POOL_MAPPINGS[stakingToken]\<close> compute for every token that begins with
  \<^verbatim>\<open>0x\<close>, and \<open>stakeVaultShares\<close>, their only caller, rejects every other token before
  it consults the table; no inherited name begins with \<^verbatim>\<open>0x\<close>. Outside such tokens the
  two definitions say nothing about the source.
\<close>

definition hasStaticPoolMapping :: "string \<Rightarrow> bool" where
  "hasStaticPoolMapping stakingToken = (map_of STAKING_TOKEN_POOL_MAPPINGS stakingToken \<noteq> None)"

definition getStaticPoolMapping :: "string \<Rightarrow> string list" where
  "getStaticPoolMapping stakingToken =
     (case map_of STAKING_TOKEN_POOL_MAPPINGS stakingToken of Some pools \<Rightarrow> pools | None \<Rightarrow> [])"

section \<open>MultiRewardsClient (internal/multi-rewards-client.ts)\<close>

record MRStakingPool =
  pool_id :: string
  staking_token :: string
  reward_tokens :: "string list"

text \<open>
  What the staking client is configured with and talks to: the optional Sentio API key,
  the pool discovery of \<^verbatim>\<open>MultiRewardsGQLClient.fetchStakingPoolsByToken\<close> (cache or
  network; it throws on failure), and the chain's \<^verbatim>\<open>is_user_subscribed\<close> view call with
  its first result already passed through \<^verbatim>\<open>Boolean\<close>.
\<close>

record staking_env =
  sentioApiKey :: "string option"
  fetchStakingPoolsByToken :: "string \<Rightarrow> error + MRStakingPool list"
  is_user_subscribed_view :: "string \<Rightarrow> string \<Rightarrow> error + bool"

definition hasApiKey :: "staking_env \<Rightarrow> bool" where
  "hasApiKey env = (case sentioApiKey env of Some k \<Rightarrow> k \<noteq> [] | None \<Rightarrow> False)"

definition getStakingPoolsForToken :: "staking_env \<Rightarrow> string \<Rightarrow> MRStakingPool list" where
  "getStakingPoolsForToken env stakingToken =
     (case fetchStakingPoolsByToken env stakingToken of Inr pools \<Rightarrow> pools | Inl e \<Rightarrow> [])"

definition isUserSubscribed :: "staking_env \<Rightarrow> string \<Rightarrow> string \<Rightarrow> error + bool" where
  "isUserSubscribed env userAddress pool =
     (case is_user_subscribed_view env userAddress pool of
        Inr isSubscribed \<Rightarrow> Inr isSubscribed
      | Inl e \<Rightarrow> Inl (CanopyError ''Failed to check user subscription'' NETWORK_ERROR))"

text \<open>
  \<^verbatim>\<open>Promise.all\<close>: the results in the order of the promises, or the rejection of the first
  promise that rejects.
\<close>

fun Promise_all :: "(error + 'a) list \<Rightarrow> error + 'a list" where
  "Promise_all [] = Inr []"
| "Promise_all (Inl e # rest) = Inl e"
| "Promise_all (Inr v # rest) =
     (case Promise_all rest of Inl e \<Rightarrow> Inl e | Inr vs \<Rightarrow> Inr (v # vs))"

text \<open>The callback mapped over \<^verbatim>\<open>poolIds\<close>: its own \<^verbatim>\<open>catch\<close> answers "not subscribed".\<close>

definition subscription_check :: "staking_env \<Rightarrow> string \<Rightarrow> string \<Rightarrow> error + (string \<times> bool)" where
  "subscription_check env userAddress poolId =
     (case isUserSubscribed env userAddress poolId of
        Inr isSubscribed \<Rightarrow> Inr (poolId, isSubscribed)
      | Inl e \<Rightarrow> Inr (poolId, False))"

text \<open>
  The outer \<^verbatim>\<open>try\<close>/\<^verbatim>\<open>catch\<close> of \<^verbatim>\<open>getUnsubscribedPools\<close>, applied to the outcome of the
  batch: the pools whose check did not say "subscribed", or all pools if the batch threw.
\<close>

definition unsubscribed_of_batch :: "string list \<Rightarrow> error + (string \<times> bool) list \<Rightarrow> string list" where
  "unsubscribed_of_batch poolIds batch =
     (case batch of
        Inr subscriptionChecks \<Rightarrow>
          map fst (filter (\<lambda>(poolId, isSubscribed). \<not> isSubscribed) subscriptionChecks)
      | Inl e \<Rightarrow> poolIds)"

definition getUnsubscribedPools :: "staking_env \<Rightarrow> string \<Rightarrow> string list \<Rightarrow> string list" where
  "getUnsubscribedPools env userAddress poolIds =
     (if length poolIds = 0 then []
      else unsubscribed_of_batch poolIds
             (Promise_all (map (subscription_check env userAddress) poolIds)))"

text \<open>Lines 765 to 788 of \<^verbatim>\<open>stakeVaultShares\<close>: the pool ids, by ordered fallback.\<close>

definition resolve_poolIds :: "staking_env \<Rightarrow> string list option \<Rightarrow> string \<Rightarrow> error + string list" where
  "resolve_poolIds env poolAddresses stakingToken =
     (let chosen =
            (if (case poolAddresses of Some ps \<Rightarrow> length ps > 0 | None \<Rightarrow> False) then
               Inr (case poolAddresses of Some ps \<Rightarrow> ps | None \<Rightarrow> [])
             else if hasStaticPoolMapping stakingToken then
               Inr (getStaticPoolMapping stakingToken)
             else if hasApiKey env then
               Inr (map pool_id (getStakingPoolsForToken env stakingToken))
             else
               Inl (CanopyError
                 ''No staking pools found for token. Options: 1) Provide poolAddresses parameter, 2) Ensure staking token is in static mapping, 3) Provide sentioApiKey for dynamic lookup''
                 STAKING_POOLS_NOT_FOUND))
      in case chosen of
           Inl e \<Rightarrow> Inl e
         | Inr poolIds \<Rightarrow>
             if length poolIds = 0 then
               Inl (CanopyError ''No staking pools available for token after checking all sources''
                      STAKING_POOLS_NOT_FOUND)
             else Inr poolIds)"

text \<open>
  Lines 790 to 816: the pools to subscribe to and the payload. \<^verbatim>\<open>if (userAddress)\<close> is
  false for a missing and for an empty user address.
\<close>

definition stake_payload ::
  "abi_addresses \<Rightarrow> staking_env \<Rightarrow> string \<Rightarrow> int \<Rightarrow> string option \<Rightarrow> string list
   \<Rightarrow> InputEntryFunctionData" where
  "stake_payload abis env stakingToken amount userAddress poolIds =
     (let poolsToSubscribe =
            (case userAddress of
               Some u \<Rightarrow> if u \<noteq> [] then getUnsubscribedPools env u poolIds else poolIds
             | None \<Rightarrow> poolIds)
      in if length poolsToSubscribe > 0 then
           \<lparr>function_id = MULTI_REWARDS_ROUTER_ABI_address abis @ ''::router::stake_and_subscribe_fa'',
            typeArguments = [],
            functionArguments =
              [ArgString stakingToken, ArgString (bigint_toString amount),
               ArgStrings poolsToSubscribe]\<rparr>
         else
           \<lparr>function_id = MULTI_REWARDS_ABI_address abis @ ''::multi_rewards::stake'',
            typeArguments = [],
            functionArguments = [ArgString stakingToken, ArgString (bigint_toString amount)]\<rparr>)"

definition stakeVaultShares ::
  "abi_addresses \<Rightarrow> staking_env \<Rightarrow> string \<Rightarrow> int \<Rightarrow> string option \<Rightarrow> string list option
   \<Rightarrow> error + InputEntryFunctionData" where
  "stakeVaultShares abis env stakingToken amount userAddress poolAddresses =
     (if stakingToken = [] then
        Inl (CanopyError ''Staking token address is required and must be a string''
               INVALID_VAULT_ADDRESS)
      else if \<not> startsWith stakingToken ''0x'' then
        Inl (CanopyError ''Staking token address must be in valid format (0x...)''
               INVALID_VAULT_ADDRESS)
      else if amount \<le> 0 then
        Inl (CanopyError ''Stake amount must be greater than zero'' AMOUNT_TOO_SMALL)
      else
        rethrow_or_wrap ''Failed to create staking transaction''
          (case resolve_poolIds env poolAddresses stakingToken of
             Inl e \<Rightarrow> Inl e
           | Inr poolIds \<Rightarrow>
               Inr (stake_payload abis env stakingToken amount userAddress poolIds)))"

text \<open>Sample configuration and collaborators for the concrete evaluations below.\<close>

definition sample_abis :: abi_addresses where
  "sample_abis =
     \<lparr>ROUTER_ABI_address = ''0xR'', MULTI_REWARDS_ABI_address = ''0xM'',
      MULTI_REWARDS_ROUTER_ABI_address = ''0xMR''\<rparr>"

definition sample_staking_env :: staking_env where
  "sample_staking_env =
     \<lparr>sentioApiKey = Some ''key'',
      fetchStakingPoolsByToken =
        (\<lambda>t. Inr [\<lparr>pool_id = ''0xAPI'', staking_token = t, reward_tokens = []\<rparr>]),
      is_user_subscribed_view =
        (\<lambda>u p. if p = ''0xP1'' then Inr False
                else if p = ''0xP2'' then Inl (NativeError ''view failed'')
                else Inr True)\<rparr>"

section \<open>Input validation (utils/validation.ts)\<close>

definition is_hex_char :: "char \<Rightarrow> bool" where
  "is_hex_char c = (c \<in> set ''0123456789abcdefABCDEF'')"

text \<open>
  \<^verbatim>\<open>AccountAddress.from\<close> belongs to the Aptos SDK, not to the repository. It is embedded
  as \<^verbatim>\<open>isValidAddress\<close> documents it in validation.ts: the address may carry a \<^verbatim>\<open>0x\<close>
  prefix, and behind it there must be 1 to 64 hexadecimal digits; otherwise the parser
  throws. Whether the parser succeeds is all that \<open>isValidAddress\<close> reads.
\<close>

definition AccountAddress_from_succeeds :: "string \<Rightarrow> bool" where
  "AccountAddress_from_succeeds input =
     (let body = (if startsWith input ''0x'' then drop 2 input else input)
      in 1 \<le> length body \<and> length body \<le> 64 \<and> list_all is_hex_char body)"

definition isValidAddress :: "string \<Rightarrow> bool" where
  "isValidAddress address = (if address = [] then False else AccountAddress_from_succeeds address)"

datatype addressType = VaultAddress | UserAddress | TokenAddress | PoolAddress | StrategyAddress

fun addressType_name :: "addressType \<Rightarrow> string" where
  "addressType_name VaultAddress = ''vault''"
| "addressType_name UserAddress = ''user''"
| "addressType_name TokenAddress = ''token''"
| "addressType_name PoolAddress = ''pool''"
| "addressType_name StrategyAddress = ''strategy''"

text \<open>\<^verbatim>\<open>addressType.charAt(0).toUpperCase() + addressType.slice(1)\<close>.\<close>

fun addressType_capitalized :: "addressType \<Rightarrow> string" where
  "addressType_capitalized VaultAddress = ''Vault''"
| "addressType_capitalized UserAddress = ''User''"
| "addressType_capitalized TokenAddress = ''Token''"
| "addressType_capitalized PoolAddress = ''Pool''"
| "addressType_capitalized StrategyAddress = ''Strategy''"

fun getErrorCodeForAddressType :: "addressType \<Rightarrow> CanopyErrorCode" where
  "getErrorCodeForAddressType VaultAddress = INVALID_VAULT_ADDRESS"
| "getErrorCodeForAddressType StrategyAddress = INVALID_VAULT_ADDRESS"
| "getErrorCodeForAddressType UserAddress = INVALID_USER_ADDRESS"
| "getErrorCodeForAddressType TokenAddress = INVALID_TOKEN_ADDRESS"
| "getErrorCodeForAddressType PoolAddress = INVALID_POOL_ADDRESS"

definition validateAddress :: "string \<Rightarrow> addressType \<Rightarrow> error + unit" where
  "validateAddress address addressType =
     (if address = [] then
        Inl (CanopyError
               (addressType_capitalized addressType @ '' address is required and must be a string'')
               (getErrorCodeForAddressType addressType))
      else if \<not> isValidAddress address then
        Inl (CanopyError (''Invalid '' @ addressType_name addressType @ '' address format'')
               (getErrorCodeForAddressType addressType))
      else Inr ())"

definition validateAmount :: "int \<Rightarrow> string \<Rightarrow> error + unit" where
  "validateAmount amount operation_name =
     (if amount \<le> 0 then
        Inl (CanopyError (operation_name @ '' '' @ ''amount must be greater than zero'')
               AMOUNT_TOO_SMALL)
      else Inr ())"

definition validateVaultInputs :: "string \<Rightarrow> int \<Rightarrow> string \<Rightarrow> error + unit" where
  "validateVaultInputs vaultAddr amount operation_name =
     (case validateAddress vaultAddr VaultAddress of
        Inl e \<Rightarrow> Inl e
      | Inr u \<Rightarrow> validateAmount amount operation_name)"

section \<open>Unstaking (internal/multi-rewards-client.ts, client.ts)\<close>

text \<open>\<^verbatim>\<open>text.includes(part)\<close>: the part occurs somewhere in the text.\<close>

fun str_includes :: "string \<Rightarrow> string \<Rightarrow> bool" where
  "str_includes [] part = (part = [])"
| "str_includes (c # cs) part = (take (length part) (c # cs) = part \<or> str_includes cs part)"

definition withdraw :: "abi_addresses \<Rightarrow> string \<Rightarrow> int \<Rightarrow> error + InputEntryFunctionData" where
  "withdraw abis coinType amount =
     (if amount \<le> 0 then
        Inl (CanopyError ''Withdraw amount must be greater than zero'' AMOUNT_TOO_SMALL)
      else
        Inr \<lparr>function_id = MULTI_REWARDS_ROUTER_ABI_address abis @ ''::router::withdraw'',
             typeArguments = [coinType],
             functionArguments = [ArgString (bigint_toString amount)]\<rparr>)"

definition withdrawFa :: "abi_addresses \<Rightarrow> string \<Rightarrow> int \<Rightarrow> error + InputEntryFunctionData" where
  "withdrawFa abis stakingToken amount =
     (if stakingToken = [] \<or> \<not> startsWith stakingToken ''0x'' then
        Inl (CanopyError
               ''Staking token address is required and must be in valid format (0x...)''
               INVALID_VAULT_ADDRESS)
      else if amount \<le> 0 then
        Inl (CanopyError ''Amount must be a positive bigint'' AMOUNT_TOO_SMALL)
      else
        Inr \<lparr>function_id = MULTI_REWARDS_ABI_address abis @ ''::multi_rewards::withdraw'',
             typeArguments = [],
             functionArguments = [ArgString stakingToken, ArgString (bigint_toString amount)]\<rparr>)"

text \<open>
  \<^verbatim>\<open>CanopyClient.unstake\<close> as validation.ts lines 330 to 345 have it (the client that
  validates with \<^verbatim>\<open>validateAddress\<close> and \<^verbatim>\<open>validateAmount\<close>).
\<close>

definition unstake :: "abi_addresses \<Rightarrow> string \<Rightarrow> int \<Rightarrow> error + InputEntryFunctionData" where
  "unstake abis tokenAddress amount =
     (case validateAddress tokenAddress TokenAddress of
        Inl e \<Rightarrow> Inl e
      | Inr u \<Rightarrow>
          (case validateAmount amount ''unstake'' of
             Inl e \<Rightarrow> Inl e
           | Inr u' \<Rightarrow>
               if str_includes tokenAddress ''::'' then withdraw abis tokenAddress amount
               else withdrawFa abis tokenAddress amount))"

text \<open>
  The other \<^verbatim>\<open>CanopyClient\<close> in the same file (lines 406 to 719) validates with its own
  \<^verbatim>\<open>validateInputs\<close>, which asks for a non-empty address beginning with \<^verbatim>\<open>0x\<close> and a
  positive amount, and dispatches in the same way.
\<close>

definition validateInputs :: "string \<Rightarrow> int \<Rightarrow> string \<Rightarrow> error + unit" where
  "validateInputs vaultAddr amount operation_name =
     (if vaultAddr = [] then
        Inl (CanopyError ''Vault address is required and must be a string'' INVALID_VAULT_ADDRESS)
      else if \<not> startsWith vaultAddr ''0x'' then
        Inl (CanopyError ''Vault address must start with 0x'' INVALID_VAULT_ADDRESS)
      else if amount \<le> 0 then
        Inl (CanopyError (operation_name @ '' '' @ ''amount must be greater than zero'')
               AMOUNT_TOO_SMALL)
      else Inr ())"

definition unstake_validateInputs ::
  "abi_addresses \<Rightarrow> string \<Rightarrow> int \<Rightarrow> error + InputEntryFunctionData" where
  "unstake_validateInputs abis tokenAddress amount =
     (case validateInputs tokenAddress amount ''unstake'' of
        Inl e \<Rightarrow> Inl e
      | Inr u \<Rightarrow>
          if str_includes tokenAddress ''::'' then withdraw abis tokenAddress amount
          else withdrawFa abis tokenAddress amount)"

section \<open>Allocation maps from the chain (StrategyAllocator)\<close>

text \<open>
  The shapes of the view call's first result that \<^verbatim>\<open>parseAllocationMap\<close> tells apart: an
  object with a \<^verbatim>\<open>data\<close> array of \<^verbatim>\<open>{key: {inner}, value}\<close> entries, a plain array of
  pairs, and anything else. An entry's key may be missing; an empty value is falsy.
\<close>

record raw_entry =
  entry_key_inner :: "string option"
  entry_value :: string

datatype raw_allocation_map =
    SimpleMapData "raw_entry list"
  | PairArray "(string \<times> string) list"
  | OtherShape

fun parse_entries :: "raw_entry list \<Rightarrow> string list \<times> int list \<Rightarrow> error + (string list \<times> int list)" where
  "parse_entries [] acc = Inr acc"
| "parse_entries (entry # rest) (strats, amts) =
     (case entry_key_inner entry of
        Some inner \<Rightarrow>
          if entry_value entry \<noteq> [] then
            (case BigInt_of_string (entry_value entry) of
               Inl e \<Rightarrow> Inl e
             | Inr n \<Rightarrow> parse_entries rest (strats @ [inner], amts @ [n]))
          else parse_entries rest (strats, amts)
      | None \<Rightarrow> parse_entries rest (strats, amts))"

fun parse_pairs :: "(string \<times> string) list \<Rightarrow> string list \<times> int list \<Rightarrow> error + (string list \<times> int list)" where
  "parse_pairs [] acc = Inr acc"
| "parse_pairs ((s, amount_text) # rest) (strats, amts) =
     (case BigInt_of_string amount_text of
        Inl e \<Rightarrow> Inl e
      | Inr n \<Rightarrow> parse_pairs rest (strats @ [s], amts @ [n]))"

text \<open>\<^verbatim>\<open>amount && strategy && amount > 0n\<close>: a zero amount and an empty strategy are falsy.\<close>

fun filterZeroAllocations_loop :: "string list \<Rightarrow> int list \<Rightarrow> AllocationMap \<Rightarrow> AllocationMap" where
  "filterZeroAllocations_loop (s # ss) (a # as) acc =
     (if a \<noteq> 0 \<and> s \<noteq> [] \<and> a > 0 then
        filterZeroAllocations_loop ss as
          \<lparr>strategies = strategies acc @ [s], amounts = amounts acc @ [a]\<rparr>
      else filterZeroAllocations_loop ss as acc)"
| "filterZeroAllocations_loop ss as acc = acc"

definition filterZeroAllocations :: "string list \<Rightarrow> int list \<Rightarrow> AllocationMap" where
  "filterZeroAllocations strats amts =
     filterZeroAllocations_loop strats amts \<lparr>strategies = [], amounts = []\<rparr>"

definition parseAllocationMap :: "raw_allocation_map \<Rightarrow> error + AllocationMap" where
  "parseAllocationMap allocationMap =
     (case (case allocationMap of
              SimpleMapData entries \<Rightarrow> parse_entries entries ([], [])
            | PairArray pairs \<Rightarrow> parse_pairs pairs ([], [])
            | OtherShape \<Rightarrow> Inr ([], [])) of
        Inl e \<Rightarrow> Inl (CanopyError ''Failed to parse allocation map'' TRANSACTION_BUILD_FAILED)
      | Inr (strats, amts) \<Rightarrow> Inr (filterZeroAllocations strats amts))"

text \<open>
  The chain as the builders see it: the vault's view (the first result of
  \<^verbatim>\<open>vault::vault_view\<close>, read field by field by \<^verbatim>\<open>parseVaultView\<close>), the deposit
  allocation and withdrawal map views, and the pause flag of \<^verbatim>\<open>vault::is_paused\<close>. An
  \<open>Inl\<close> is a view call that throws.
\<close>

record chain_env =
  vault_view :: "string \<Rightarrow> error + VaultView"
  get_allocations_view :: "string \<Rightarrow> string \<Rightarrow> error + raw_allocation_map"
  get_withdrawal_map_view :: "string \<Rightarrow> string \<Rightarrow> error + raw_allocation_map"
  is_paused_view :: "string \<Rightarrow> error + bool"

definition getOptimalAllocation :: "chain_env \<Rightarrow> string \<Rightarrow> int \<Rightarrow> error + AllocationMap" where
  "getOptimalAllocation chain vaultAddr amount =
     (case get_allocations_view chain vaultAddr (bigint_toString amount) of
        Inl e \<Rightarrow> Inl (CanopyError ''Failed to get optimal allocation'' TRANSACTION_BUILD_FAILED)
      | Inr allocationMap \<Rightarrow>
          (case parseAllocationMap allocationMap of
             Inl e \<Rightarrow>
               Inl (CanopyError ''Failed to get optimal allocation'' TRANSACTION_BUILD_FAILED)
           | Inr allocation \<Rightarrow> Inr allocation))"

definition getAllocationMap :: "chain_env \<Rightarrow> string \<Rightarrow> int \<Rightarrow> error + AllocationMap" where
  "getAllocationMap chain vaultAddr shares =
     (case get_withdrawal_map_view chain vaultAddr (bigint_toString shares) of
        Inl e \<Rightarrow> Inl (CanopyError ''Failed to get withdrawal map'' TRANSACTION_BUILD_FAILED)
      | Inr allocationMap \<Rightarrow>
          (case parseAllocationMap allocationMap of
             Inl e \<Rightarrow> Inl (CanopyError ''Failed to get withdrawal map'' TRANSACTION_BUILD_FAILED)
           | Inr allocation \<Rightarrow> Inr allocation))"

section \<open>VaultDetector: vault details and the pause check (vault-detector.ts)\<close>

definition getVaultDetails :: "chain_env \<Rightarrow> string \<Rightarrow> error + VaultView" where
  "getVaultDetails chain vaultAddr =
     (case vault_view chain vaultAddr of
        Inl e \<Rightarrow> Inl (CanopyError ''Failed to get vault details'' VAULT_NOT_FOUND)
      | Inr vault \<Rightarrow> Inr vault)"

text \<open>
  \<^verbatim>\<open>checkVaultPaused\<close> is the only reader of the pause flag. Its only caller,
  \<^verbatim>\<open>detectVaultType\<close>, which would throw \<open>VAULT_PAUSED\<close>, is commented out in the source
  and therefore has no counterpart here.
\<close>

definition checkVaultPaused :: "chain_env \<Rightarrow> string \<Rightarrow> error + bool" where
  "checkVaultPaused chain vaultAddr =
     (case is_paused_view chain vaultAddr of
        Inr isPaused \<Rightarrow> Inr isPaused
      | Inl e \<Rightarrow> Inl (CanopyError ''Vault not found or inaccessible'' VAULT_NOT_FOUND))"

section \<open>TransactionBuilder (transaction-builder.ts, networks.ts, constants)\<close>

definition DEFAULT_MIN_SHARES_OUT :: string where "DEFAULT_MIN_SHARES_OUT = ''0''"
definition DEFAULT_MAX_LOSS :: string where "DEFAULT_MAX_LOSS = ''100''"
definition WITHDRAW_MIN_AMOUNT_OUT :: string where "WITHDRAW_MIN_AMOUNT_OUT = ''0''"
definition WITHDRAW_MIN_AMOUNT_OUT_MOVEPOSITION :: string where
  "WITHDRAW_MIN_AMOUNT_OUT_MOVEPOSITION = ''100''"
definition EMPTY_STRATEGIES :: "string list" where "EMPTY_STRATEGIES = []"
definition EMPTY_PACKETS :: "byte list list" where "EMPTY_PACKETS = []"

definition VIRTUAL_COIN_PACKAGE :: string where
  "VIRTUAL_COIN_PACKAGE = ''0xccd2621d2897d407e06d18e6ebe3be0e6d9b61f1e809dd49360522b9105812cf::coins::''"

definition MAINNET_MOVEVEPOSITION_NAMES_MAP :: "(string \<times> string) list" where
  "MAINNET_MOVEVEPOSITION_NAMES_MAP =
     [(VIRTUAL_COIN_PACKAGE @ ''MOVE'', ''movement-move-fa''),
      (VIRTUAL_COIN_PACKAGE @ ''USDC'', ''movement-usdc''),
      (VIRTUAL_COIN_PACKAGE @ ''USDt'', ''movement-usdt''),
      (VIRTUAL_COIN_PACKAGE @ ''WETH'', ''movement-weth''),
      (VIRTUAL_COIN_PACKAGE @ ''WBTC'', ''movement-wbtc''),
      (VIRTUAL_COIN_PACKAGE @ ''EZETH'', ''movement-ezeth''),
      (VIRTUAL_COIN_PACKAGE @ ''RSETH'', ''movement-rseth''),
      (VIRTUAL_COIN_PACKAGE @ ''STBTC'', ''movement-stbtc'')]"

definition MAINNET_MOVEVEPOSITION_VIRTUAL_COIN_MAP :: "(string \<times> string) list" where
  "MAINNET_MOVEVEPOSITION_VIRTUAL_COIN_MAP =
     [(''0x000000000000000000000000000000000000000000000000000000000000000a'',
       VIRTUAL_COIN_PACKAGE @ ''MOVE''),
      (''0x83121c9f9b0527d1f056e21a950d6bf3b9e9e2e8353d0e95ccea726713cbea39'',
       VIRTUAL_COIN_PACKAGE @ ''USDC''),
      (''0x447721a30109c662dde9c73a0c2c9c9c459fb5e5a9c92f03c50fa69737f5d08d'',
       VIRTUAL_COIN_PACKAGE @ ''USDt''),
      (''0x908828f4fb0213d4034c3ded1630bbd904e8a3a6bf3c63270887f0b06653a376'',
       VIRTUAL_COIN_PACKAGE @ ''WETH''),
      (''0xb06f29f24dde9c6daeec1f930f14a441a8d6c0fbea590725e88b340af3e1939c'',
       VIRTUAL_COIN_PACKAGE @ ''WBTC''),
      (''0x2f6af255328fe11b88d840d1e367e946ccd16bd7ebddd6ee7e2ef9f7ae0c53ef'',
       VIRTUAL_COIN_PACKAGE @ ''EZETH''),
      (''0x51ffc9885233adf3dd411078cad57535ed1982013dc82d9d6c433a55f2e0035d'',
       VIRTUAL_COIN_PACKAGE @ ''RSETH''),
      (''0x95c0fd13373299ada1b9f09ff62473ab8b3908e6a30011730210c141dffdc990'',
       VIRTUAL_COIN_PACKAGE @ ''STBTC'')]"

record NetworkConfig =
  config_movepositionApiUrl :: "string option"
  movepositionNameMap :: "(string \<rightharpoonup> string) option"
  movepositionVirtualCoinMap :: "(string \<rightharpoonup> string) option"

text \<open>
  \<^verbatim>\<open>NETWORK_CONFIGS\<close> has the one entry for \<^verbatim>\<open>movement-mainnet\<close>, and \<open>getNetworkConfig\<close>
  falls back to it for any other name.
\<close>

definition getNetworkConfig :: "string \<Rightarrow> NetworkConfig" where
  "getNetworkConfig net =
     \<lparr>config_movepositionApiUrl = Some ''https://api.moveposition.xyz'',
      movepositionNameMap = Some (map_of MAINNET_MOVEVEPOSITION_NAMES_MAP),
      movepositionVirtualCoinMap = Some (map_of MAINNET_MOVEVEPOSITION_VIRTUAL_COIN_MAP)\<rparr>"

text \<open>The fields the constructor of \<^verbatim>\<open>TransactionBuilder\<close> stores.\<close>

record TransactionBuilder =
  builder_network :: string
  builder_movepositionConfig :: "MovePositionConfig option"

definition getMovePositionConfig :: "TransactionBuilder \<Rightarrow> MovePositionConfig option" where
  "getMovePositionConfig builder =
     (case builder_movepositionConfig builder of
        Some config \<Rightarrow> Some config
      | None \<Rightarrow>
          let networkConfig = getNetworkConfig (builder_network builder)
          in (case config_movepositionApiUrl networkConfig of
                Some url \<Rightarrow>
                  if url \<noteq> [] then
                    Some \<lparr>apiUrl = url,
                          nameMap = (case movepositionNameMap networkConfig of
                                       Some m \<Rightarrow> m | None \<Rightarrow> Map.empty),
                          virtualCoinMap = (case movepositionVirtualCoinMap networkConfig of
                                              Some m \<Rightarrow> m | None \<Rightarrow> Map.empty)\<rparr>
                  else None
              | None \<Rightarrow> None))"

text \<open>\<^verbatim>\<open>value.split("::")\<close> for a non-empty separator.\<close>

fun split_str :: "string \<Rightarrow> string \<Rightarrow> string list" where
  "split_str sep [] = [[]]"
| "split_str sep (c # cs) =
     (if sep \<noteq> [] \<and> take (length sep) (c # cs) = sep then
        [] # split_str sep (drop (length sep) (c # cs))
      else case split_str sep cs of
             seg # segs \<Rightarrow> (c # seg) # segs
           | [] \<Rightarrow> [[c]])"

text \<open>
  A template literal prints a missing array element as \<^verbatim>\<open>undefined\<close>.
\<close>

definition segment_text :: "string list \<Rightarrow> nat \<Rightarrow> string" where
  "segment_text segs i = (if i < length segs then segs ! i else ''undefined'')"

definition normalizeTypeName :: "string \<Rightarrow> string" where
  "normalizeTypeName v =
     (let typeSplit = split_str ''::'' v;
          pkg0 = (case typeSplit of p # rest \<Rightarrow> p | [] \<Rightarrow> []);
          pkg = (if startsWith pkg0 ''@'' then drop 1 pkg0 else pkg0);
          address = TransactionBuilder_normalizeAddress pkg
      in address @ ''::'' @ segment_text typeSplit 1 @ ''::'' @ segment_text typeSplit 2)"

definition generatePacketsIfNeeded ::
  "abi_addresses \<Rightarrow> TransactionBuilder \<Rightarrow> 'v lending_remote \<Rightarrow> VaultView \<Rightarrow> string list
   \<Rightarrow> int list \<Rightarrow> operation \<Rightarrow> string \<Rightarrow> error + PacketData list" where
  "generatePacketsIfNeeded abis builder remote vault strats amts operation vaultAddr =
     (if \<not> TransactionBuilder_isMovePosition vault then Inr []
      else
        let moveConfig = getMovePositionConfig builder;
            coinType =
              (case moveConfig of
                 Some config \<Rightarrow>
                   (case virtualCoinMap config
                           (TransactionBuilder_normalizeAddress (assetAddress vault)) of
                      Some t \<Rightarrow> t | None \<Rightarrow> [])
               | None \<Rightarrow> []);
            packetOptions =
              \<lparr>vaultAddress = vaultAddr,
               network = Some (builder_network builder),
               routerAddress = Some (ROUTER_ABI_address abis),
               virtualCoinType = coinType,
               movepositionConfig = moveConfig\<rparr>
        in generatePackets remote (builder_network builder) strats amts operation packetOptions)"

definition createDepositPayload ::
  "abi_addresses \<Rightarrow> VaultView \<Rightarrow> string \<Rightarrow> AllocationMap \<Rightarrow> PacketData list \<Rightarrow> int
   \<Rightarrow> InputEntryFunctionData" where
  "createDepositPayload abis vault vaultAddr allocation packets amount =
     (if TransactionBuilder_isEchelon vault then
        let coinTypeName =
              normalizeTypeName (case pairedCoinType vault of Some t \<Rightarrow> t | None \<Rightarrow> [])
        in \<lparr>function_id = ROUTER_ABI_address abis @ ''::router::deposit_coin'',
            typeArguments = [coinTypeName, coinTypeName],
            functionArguments =
              [ArgString vaultAddr, ArgStrings EMPTY_STRATEGIES, ArgBytesList EMPTY_PACKETS,
               ArgString (bigint_toString amount), ArgString DEFAULT_MIN_SHARES_OUT]\<rparr>
      else
        let coinTypeName =
              normalizeTypeName (case pairedCoinType vault of
                                   Some t \<Rightarrow> t | None \<Rightarrow> ''0x1::aptos_coin::AptosCoin'');
            arrays = createPacketArrays packets (Some allocation)
        in \<lparr>function_id = ROUTER_ABI_address abis @ ''::router::deposit_fa_with_coin_type'',
            typeArguments = [coinTypeName],
            functionArguments =
              [ArgString vaultAddr, ArgStrings (packetStrategies arrays),
               ArgBytesList (packetData arrays),
               ArgString (bigint_toString amount), ArgString DEFAULT_MIN_SHARES_OUT]\<rparr>)"

definition createWithdrawPayload ::
  "abi_addresses \<Rightarrow> VaultView \<Rightarrow> string \<Rightarrow> AllocationMap \<Rightarrow> PacketData list \<Rightarrow> int
   \<Rightarrow> string \<Rightarrow> InputEntryFunctionData" where
  "createWithdrawPayload abis vault vaultAddr allocationMap packets shares maxLoss =
     (if TransactionBuilder_isEchelon vault then
        let coinTypeName =
              normalizeTypeName (case pairedCoinType vault of Some t \<Rightarrow> t | None \<Rightarrow> [])
        in \<lparr>function_id = ROUTER_ABI_address abis @ ''::router::withdraw_coin'',
            typeArguments = [coinTypeName, coinTypeName],
            functionArguments =
              [ArgString vaultAddr, ArgStrings EMPTY_STRATEGIES, ArgBytesList EMPTY_PACKETS,
               ArgString (bigint_toString shares), ArgString maxLoss,
               ArgString WITHDRAW_MIN_AMOUNT_OUT]\<rparr>
      else
        let coinTypeName =
              normalizeTypeName (case pairedCoinType vault of
                                   Some t \<Rightarrow> t | None \<Rightarrow> ''0x1::aptos_coin::AptosCoin'');
            arrays = createPacketArrays packets (Some allocationMap)
        in \<lparr>function_id = ROUTER_ABI_address abis @ ''::router::withdraw_fa_with_coin_type'',
            typeArguments = [coinTypeName],
            functionArguments =
              [ArgString vaultAddr, ArgStrings (packetStrategies arrays),
               ArgBytesList (packetData arrays),
               ArgString (bigint_toString shares), ArgString maxLoss,
               ArgString WITHDRAW_MIN_AMOUNT_OUT_MOVEPOSITION]\<rparr>)"

definition buildDepositPayload ::
  "abi_addresses \<Rightarrow> TransactionBuilder \<Rightarrow> chain_env \<Rightarrow> 'v lending_remote \<Rightarrow> string \<Rightarrow> int
   \<Rightarrow> error + InputEntryFunctionData" where
  "buildDepositPayload abis builder chain remote vaultAddr amount =
     rethrow_or_wrap ''Failed to build deposit transaction''
       (case getVaultDetails chain vaultAddr of
          Inl e \<Rightarrow> Inl e
        | Inr vault \<Rightarrow>
            (case getOptimalAllocation chain vaultAddr amount of
               Inl e \<Rightarrow> Inl e
             | Inr allocation \<Rightarrow>
                 (case validateAllocation allocation amount of
                    Inl e \<Rightarrow> Inl e
                  | Inr u \<Rightarrow>
                      (case generatePacketsIfNeeded abis builder remote vault
                              (strategies allocation) (amounts allocation) OpDeposit vaultAddr of
                         Inl e \<Rightarrow> Inl e
                       | Inr packets \<Rightarrow>
                           Inr (createDepositPayload abis vault vaultAddr allocation packets
                                  amount)))))"

definition buildWithdrawPayload ::
  "abi_addresses \<Rightarrow> TransactionBuilder \<Rightarrow> chain_env \<Rightarrow> 'v lending_remote \<Rightarrow> string \<Rightarrow> int
   \<Rightarrow> error + InputEntryFunctionData" where
  "buildWithdrawPayload abis builder chain remote vaultAddr shares =
     rethrow_or_wrap ''Failed to build withdraw transaction''
       (case getVaultDetails chain vaultAddr of
          Inl e \<Rightarrow> Inl e
        | Inr vault \<Rightarrow>
            (case getAllocationMap chain vaultAddr shares of
               Inl e \<Rightarrow> Inl e
             | Inr allocationMap \<Rightarrow>
                 (case generatePacketsIfNeeded abis builder remote vault
                         (strategies allocationMap) (amounts allocationMap) OpWithdraw
                         vaultAddr of
                    Inl e \<Rightarrow> Inl e
                  | Inr packets \<Rightarrow>
                      Inr (createWithdrawPayload abis vault vaultAddr allocationMap packets
                             shares DEFAULT_MAX_LOSS))))"

section \<open>CanopyClient.deposit and CanopyClient.withdraw (client.ts)\<close>

text \<open>
  The client builds its \<^verbatim>\<open>TransactionBuilder\<close> with the network only, validates the
  inputs, and hands over to the builder.
\<close>

definition CanopyClient_deposit ::
  "abi_addresses \<Rightarrow> string \<Rightarrow> chain_env \<Rightarrow> 'v lending_remote \<Rightarrow> string \<Rightarrow> int
   \<Rightarrow> error + InputEntryFunctionData" where
  "CanopyClient_deposit abis net chain remote vaultAddr amount =
     (case validateVaultInputs vaultAddr amount ''deposit'' of
        Inl e \<Rightarrow> Inl e
      | Inr u \<Rightarrow>
          rethrow_or_wrap ''Deposit failed''
            (buildDepositPayload abis
               \<lparr>builder_network = net, builder_movepositionConfig = None\<rparr>
               chain remote vaultAddr amount))"

definition CanopyClient_withdraw ::
  "abi_addresses \<Rightarrow> string \<Rightarrow> chain_env \<Rightarrow> 'v lending_remote \<Rightarrow> string \<Rightarrow> int
   \<Rightarrow> error + InputEntryFunctionData" where
  "CanopyClient_withdraw abis net chain remote vaultAddr shares =
     (case validateVaultInputs vaultAddr shares ''withdraw'' of
        Inl e \<Rightarrow> Inl e
      | Inr u \<Rightarrow>
          rethrow_or_wrap ''Withdrawal failed''
            (buildWithdrawPayload abis
               \<lparr>builder_network = net, builder_movepositionConfig = None\<rparr>
               chain remote vaultAddr shares))"

text \<open>
  Sample vaults and chains for the concrete evaluations below: a vault without
  strategies with a chain that serves it and reports it as paused or not, and a vault
  whose one strategy is LayerBank's with a chain that withdraws everything from it.
\<close>

definition satay_vault :: VaultView where
  "satay_vault =
     \<lparr>assetAddress = ''0xa'', sharesAddress = ''0xb'', pairedCoinType = None,
      vault_strategies = []\<rparr>"

definition sample_chain :: "bool \<Rightarrow> chain_env" where
  "sample_chain paused =
     \<lparr>vault_view = (\<lambda>a. Inr satay_vault),
      get_allocations_view = (\<lambda>a n. Inr (PairArray [(''0xS1'', n)])),
      get_withdrawal_map_view = (\<lambda>a n. Inr (SimpleMapData [])),
      is_paused_view = (\<lambda>a. Inr paused)\<rparr>"

definition layerbank_vault :: VaultView where
  "layerbank_vault =
     \<lparr>assetAddress = ''0xa'', sharesAddress = ''0xb'', pairedCoinType = None,
      vault_strategies =
        [\<lparr>strategyAddress = ''0xS1'',
          concreteAddress = LAYERBANK_SIMPLE_CONCRETE_ADDRESS\<rparr>]\<rparr>"

definition layerbank_chain :: chain_env where
  "layerbank_chain =
     \<lparr>vault_view = (\<lambda>a. Inr layerbank_vault),
      get_allocations_view = (\<lambda>a n. Inr (PairArray [(''0xS1'', n)])),
      get_withdrawal_map_view =
        (\<lambda>a n. Inr (SimpleMapData [\<lparr>entry_key_inner = Some ''0xS1'', entry_value = n\<rparr>])),
      is_paused_view = (\<lambda>a. Inr False)\<rparr>"

definition sample_builder :: TransactionBuilder where
  "sample_builder = \<lparr>builder_network = ''movement-mainnet'', builder_movepositionConfig = None\<rparr>"

section \<open>Allocation validation\<close>

lemma foldl_plus_sum_list: "foldl (\<lambda>sum amount. sum + amount) a xs = a + sum_list xs"
  for a :: int
  by (induction xs arbitrary: a) simp_all

lemma bigint_div_pos: "0 < a \<Longrightarrow> 0 < b \<Longrightarrow> bigint_div a b = a div b"
  by (simp add: bigint_div_def)

text \<open>
  C1. For every allocation map and every positive \<open>totalAmount\<close>, \<open>validateAllocation\<close>
  throws exactly when the strategies list is empty, or the two lists differ in length,
  or the absolute difference between the sum of the amounts and \<open>totalAmount\<close> exceeds
  \<open>totalAmount div 1000\<close>; whenever it throws, the error is a \<open>CanopyError\<close> with code
  \<open>TRANSACTION_BUILD_FAILED\<close>, and otherwise it returns normally, so over- and
  under-allocation within the tolerance are both accepted.
\<close>

theorem validateAllocation_iff:
  assumes "0 < totalAmount"
  shows "((\<exists>msg. validateAllocation allocation totalAmount
              = Inl (CanopyError msg TRANSACTION_BUILD_FAILED))
          \<longleftrightarrow>
          (strategies allocation = []
           \<or> length (strategies allocation) \<noteq> length (amounts allocation)
           \<or> \<bar>sum_list (amounts allocation) - totalAmount\<bar> > totalAmount div 1000))
         \<and>
         (validateAllocation allocation totalAmount = Inr ()
          \<longleftrightarrow>
          \<not> (strategies allocation = []
           \<or> length (strategies allocation) \<noteq> length (amounts allocation)
           \<or> \<bar>sum_list (amounts allocation) - totalAmount\<bar> > totalAmount div 1000))"
  using assms
  by (auto simp: validateAllocation_def Let_def foldl_plus_sum_list bigint_div_pos)

theorem validateAllocation_iff_witness:
  "(0::int) < 1000000
   \<and> validateAllocation \<lparr>strategies = [''0xS1'', ''0xS2''], amounts = [600000, 400999]\<rparr> 1000000
       = Inr ()
   \<and> validateAllocation \<lparr>strategies = [''0xS1'', ''0xS2''], amounts = [600000, 399000]\<rparr> 1000000
       = Inr ()
   \<and> (\<exists>msg. validateAllocation \<lparr>strategies = [''0xS1''], amounts = [1001001]\<rparr> 1000000
       = Inl (CanopyError msg TRANSACTION_BUILD_FAILED))"
  using validateAllocation_iff
          [of 1000000 "\<lparr>strategies = [''0xS1'', ''0xS2''], amounts = [600000, 400999]\<rparr>"]
        validateAllocation_iff
          [of 1000000 "\<lparr>strategies = [''0xS1'', ''0xS2''], amounts = [600000, 399000]\<rparr>"]
        validateAllocation_iff
          [of 1000000 "\<lparr>strategies = [''0xS1''], amounts = [1001001]\<rparr>"]
  by simp

section \<open>Packet arrays follow the allocation order\<close>

lemma allocation_loop_eq:
  "allocation_loop packets ss acc =
     \<lparr>packetStrategies = packetStrategies acc @ filter (\<lambda>s. found_packet packets s \<noteq> []) ss,
      packetData = packetData acc
        @ map (found_packet packets) (filter (\<lambda>s. found_packet packets s \<noteq> []) ss)\<rparr>"
  by (induction ss arbitrary: acc) (auto simp: found_packet_def split: option.splits)

lemma find_strategy_distinct:
  "distinct (map strategy packets) \<Longrightarrow> p \<in> set packets \<Longrightarrow>
   find (\<lambda>q. strategy q = strategy p) packets = Some p"
  by (induction packets) auto

lemma found_packet_distinct:
  assumes "distinct (map strategy packets)"
  shows "found_packet packets s \<noteq> [] \<longleftrightarrow> (\<exists>p\<in>set packets. strategy p = s \<and> packet p \<noteq> [])"
proof
  assume "found_packet packets s \<noteq> []"
  then obtain p where "find (\<lambda>p. strategy p = s) packets = Some p" and "packet p \<noteq> []"
    by (auto simp: found_packet_def split: option.splits)
  then have "p \<in> set packets" and "strategy p = s"
    by (auto simp: find_Some_iff)
  with \<open>packet p \<noteq> []\<close> show "\<exists>p\<in>set packets. strategy p = s \<and> packet p \<noteq> []"
    by blast
next
  assume "\<exists>p\<in>set packets. strategy p = s \<and> packet p \<noteq> []"
  then obtain p where "p \<in> set packets" "strategy p = s" "packet p \<noteq> []"
    by blast
  with find_strategy_distinct [OF assms, of p] show "found_packet packets s \<noteq> []"
    by (simp add: found_packet_def)
qed

text \<open>
  C2, as amended. For every packet list and every supplied allocation map,
  \<open>createPacketArrays\<close> returns as \<open>packetStrategies\<close> the allocation's strategies, in the
  allocation's order, restricted to those whose first packet in the packet list (the one
  \<^verbatim>\<open>find\<close> returns) is non-empty, and \<open>packetData\<close> holds those first packets, element
  by element; a strategy absent from the allocation never appears. When no strategy
  occurs twice in the packet list, the restriction is to the strategies that have a
  non-empty packet, as the claim words it.
\<close>

theorem createPacketArrays_allocation_order:
  "packetStrategies (createPacketArrays packets (Some al))
     = filter (\<lambda>s. found_packet packets s \<noteq> []) (strategies al)
   \<and> packetData (createPacketArrays packets (Some al))
     = map (found_packet packets) (packetStrategies (createPacketArrays packets (Some al)))
   \<and> set (packetStrategies (createPacketArrays packets (Some al))) \<subseteq> set (strategies al)
   \<and> (distinct (map strategy packets) \<longrightarrow>
        packetStrategies (createPacketArrays packets (Some al))
          = filter (\<lambda>s. \<exists>p\<in>set packets. strategy p = s \<and> packet p \<noteq> []) (strategies al))"
proof -
  have nil: "found_packet [] s = []" for s
    by (simp add: found_packet_def)
  have strat: "packetStrategies (createPacketArrays packets (Some al))
     = filter (\<lambda>s. found_packet packets s \<noteq> []) (strategies al)"
    by (cases "packets = []") (simp_all add: createPacketArrays_def allocation_loop_eq nil)
  have data: "packetData (createPacketArrays packets (Some al))
     = map (found_packet packets) (filter (\<lambda>s. found_packet packets s \<noteq> []) (strategies al))"
    by (cases "packets = []") (simp_all add: createPacketArrays_def allocation_loop_eq nil)
  have dist: "filter (\<lambda>s. found_packet packets s \<noteq> []) (strategies al)
      = filter (\<lambda>s. \<exists>p\<in>set packets. strategy p = s \<and> packet p \<noteq> []) (strategies al)"
    if "distinct (map strategy packets)"
    using found_packet_distinct [OF that] by simp
  show ?thesis
    using strat data dist by auto
qed

theorem createPacketArrays_allocation_order_witness:
  "distinct (map strategy
      [\<lparr>strategy = ''0xB'', packet = [1, 2]\<rparr>, \<lparr>strategy = ''0xA'', packet = [3]\<rparr>,
       \<lparr>strategy = ''0xC'', packet = []\<rparr>, \<lparr>strategy = ''0xD'', packet = [4]\<rparr>])
   \<and> packetStrategies (createPacketArrays
      [\<lparr>strategy = ''0xB'', packet = [1, 2]\<rparr>, \<lparr>strategy = ''0xA'', packet = [3]\<rparr>,
       \<lparr>strategy = ''0xC'', packet = []\<rparr>, \<lparr>strategy = ''0xD'', packet = [4]\<rparr>]
      (Some \<lparr>strategies = [''0xA'', ''0xB'', ''0xC''], amounts = [5, 6, 7]\<rparr>))
     = [''0xA'', ''0xB'']
   \<and> packetData (createPacketArrays
      [\<lparr>strategy = ''0xB'', packet = [1, 2]\<rparr>, \<lparr>strategy = ''0xA'', packet = [3]\<rparr>,
       \<lparr>strategy = ''0xC'', packet = []\<rparr>, \<lparr>strategy = ''0xD'', packet = [4]\<rparr>]
      (Some \<lparr>strategies = [''0xA'', ''0xB'', ''0xC''], amounts = [5, 6, 7]\<rparr>))
     = [[3], [1, 2]]"
  using createPacketArrays_allocation_order
    [of "[\<lparr>strategy = ''0xB'', packet = [1, 2]\<rparr>, \<lparr>strategy = ''0xA'', packet = [3]\<rparr>,
          \<lparr>strategy = ''0xC'', packet = []\<rparr>, \<lparr>strategy = ''0xD'', packet = [4]\<rparr>]"
        "\<lparr>strategies = [''0xA'', ''0xB'', ''0xC''], amounts = [5, 6, 7]\<rparr>"]
  by (simp add: found_packet_def)

theorem createPacketArrays_first_packet_counterexample:
  "packetStrategies (createPacketArrays
      [\<lparr>strategy = ''0xA'', packet = []\<rparr>, \<lparr>strategy = ''0xA'', packet = [1]\<rparr>]
      (Some \<lparr>strategies = [''0xA''], amounts = [5]\<rparr>))
   \<noteq> filter (\<lambda>s. \<exists>p\<in>set [\<lparr>strategy = ''0xA'', packet = []\<rparr>,
                               \<lparr>strategy = ''0xA'', packet = [1::byte]\<rparr>].
                      strategy p = s \<and> packet p \<noteq> [])
        [''0xA'']"
  by (simp add: createPacketArrays_def)

section \<open>Packet generation isolates failures\<close>





section \<open>Platform classification\<close>

lemma toLowerCase_0x: "startsWith h ''0x'' \<Longrightarrow> startsWith (toLowerCase h) ''0x''"
proof -
  assume a: "startsWith h ''0x''"
  have "take 2 (map toLowerCase_char h) = map toLowerCase_char (take 2 h)"
    by (simp add: take_map)
  also have "\<dots> = map toLowerCase_char ''0x''"
  proof -
    have "take 2 h = ''0x''"
      using a by (simp add: startsWith_def numeral_2_eq_2)
    then show ?thesis by (simp only:)
  qed
  also have "\<dots> = ''0x''"
    by (simp add: toLowerCase_char_def)
  finally show ?thesis
    by (simp add: startsWith_def toLowerCase_def numeral_2_eq_2)
qed

lemma normalize_spelling:
  assumes "toLowerCase h = k" and "length k = 64" and "\<not> startsWith k ''0x''"
  shows "normalizeAddress h = k" and "normalizeAddress (''0x'' @ h) = k"
proof -
  have "\<not> startsWith h ''0x''" using assms toLowerCase_0x by blast
  then show "normalizeAddress h = k"
    using assms by (simp add: normalizeAddress_def padStart_def)
  show "normalizeAddress (''0x'' @ h) = k"
    using assms by (simp add: normalizeAddress_def padStart_def startsWith_def)
qed

lemma normalized_constants:
  "normalizeAddress MOVEPOSITION_SIMPLE_CONCRETE_ADDRESS
     = ''d7c7b27e361434e18d2410fd02f7140a8c10d174c9be0efd5324578d243953bd''"
  "normalizeAddress ECHELON_SIMPLE_CONCRETE_ADDRESS
     = ''5d2b6a8b6478d86f62c9d3378e2a1fa265e85e69046946632d1fecae1940e851''"
  "normalizeAddress LAYERBANK_SIMPLE_CONCRETE_ADDRESS
     = ''ad1b34939f164ec6f6c0157da3a30bf9e5d408250978691872a79aa584852b85''"
  "normalizeAddress MERIDIAN_SIMPLE_CONCRETE_ADDRESS
     = ''133b23036f4ac78279fd4cc75b798ccfe2d3c002585049d7483230653b924b7d''"
  by code_simp+

lemma first_concrete_spelling:
  assumes "toLowerCase h = k" and "length k = 64" and "\<not> startsWith k ''0x''"
    and "vault_strategies vault = s # rest"
    and "concreteAddress s = h \<or> concreteAddress s = ''0x'' @ h"
  shows "first_concrete_is normalizeAddress vault c = (k = normalizeAddress c)"
proof -
  have "length h = 64"
    using assms(1,2) by (auto simp: toLowerCase_def)
  then have "h \<noteq> []" by auto
  moreover have "normalizeAddress (concreteAddress s) = k"
    using assms(5) normalize_spelling [OF assms(1-3)] by auto
  ultimately show ?thesis
    using assms(4,5) by (auto simp: first_concrete_is_def)
qed

lemma TransactionBuilder_normalizeAddress_eq:
  "TransactionBuilder_normalizeAddress v = ''0x'' @ normalizeAddress v"
  by (simp add: TransactionBuilder_normalizeAddress_def normalizeAddress_def Let_def)

lemma TransactionBuilder_first_concrete:
  "first_concrete_is TransactionBuilder_normalizeAddress vault c
     = first_concrete_is normalizeAddress vault c"
  by (simp add: first_concrete_is_def TransactionBuilder_normalizeAddress_eq
           split: list.splits)

lemma platform_of_spelling:
  assumes "(constant, name) \<in> set known_platforms"
    and "toLowerCase h = drop 2 constant"
    and "vault_strategies vault = s # rest"
    and "concreteAddress s = h \<or> concreteAddress s = ''0x'' @ h"
  shows "getPlatformName vault = name"
proof -
  consider
      "constant = MOVEPOSITION_SIMPLE_CONCRETE_ADDRESS" "name = ''MovePosition''"
    | "constant = ECHELON_SIMPLE_CONCRETE_ADDRESS" "name = ''Echelon''"
    | "constant = LAYERBANK_SIMPLE_CONCRETE_ADDRESS" "name = ''LayerBank''"
    | "constant = MERIDIAN_SIMPLE_CONCRETE_ADDRESS" "name = ''Meridian''"
    using assms(1) by (auto simp: known_platforms_def)
  then show ?thesis
  proof cases
    case 1
    have k: "toLowerCase h = ''d7c7b27e361434e18d2410fd02f7140a8c10d174c9be0efd5324578d243953bd''"
      using assms(2) 1 by (simp add: MOVEPOSITION_SIMPLE_CONCRETE_ADDRESS_def)
    show ?thesis
      using first_concrete_spelling [OF k _ _ assms(3,4)] 1
      by (simp add: getPlatformName_def isMovePosition_def startsWith_def normalized_constants)
  next
    case 2
    have k: "toLowerCase h = ''5d2b6a8b6478d86f62c9d3378e2a1fa265e85e69046946632d1fecae1940e851''"
      using assms(2) 2 by (simp add: ECHELON_SIMPLE_CONCRETE_ADDRESS_def)
    show ?thesis
      using first_concrete_spelling [OF k _ _ assms(3,4)] 2
      by (simp add: getPlatformName_def isMovePosition_def isEchelon_def startsWith_def
            normalized_constants)
  next
    case 3
    have k: "toLowerCase h = ''ad1b34939f164ec6f6c0157da3a30bf9e5d408250978691872a79aa584852b85''"
      using assms(2) 3 by (simp add: LAYERBANK_SIMPLE_CONCRETE_ADDRESS_def)
    show ?thesis
      using first_concrete_spelling [OF k _ _ assms(3,4)] 3
      by (simp add: getPlatformName_def isMovePosition_def isEchelon_def isLayerBank_def
            startsWith_def normalized_constants)
  next
    case 4
    have k: "toLowerCase h = ''133b23036f4ac78279fd4cc75b798ccfe2d3c002585049d7483230653b924b7d''"
      using assms(2) 4 by (simp add: MERIDIAN_SIMPLE_CONCRETE_ADDRESS_def)
    show ?thesis
      using first_concrete_spelling [OF k _ _ assms(3,4)] 4
      by (simp add: getPlatformName_def isMovePosition_def isEchelon_def isLayerBank_def
            isMeridian_def startsWith_def normalized_constants)
  qed
qed

text \<open>
  C4, as amended. Platform classification is a total function of the vault:
  \<open>getPlatformName\<close> always returns one of the five platform names, and no branch of it
  or of the four predicates throws. A vault with no strategies classifies as the default
  platform, Satay. A vault whose first strategy's concrete address is any mixed-case
  spelling \<open>h\<close> of the 64 hex digits of a known platform constant (\<open>toLowerCase h\<close> being
  those digits), given as \<open>h\<close> or behind the lower-case prefix \<open>0x\<close>, classifies as that
  platform. The two predicates of \<^verbatim>\<open>TransactionBuilder\<close> agree with those of
  \<^verbatim>\<open>VaultDetector\<close>.
\<close>

theorem platform_classification:
  "(vault_strategies vault = [] \<longrightarrow> getPlatformName vault = ''Satay'')
   \<and> getPlatformName vault \<in> {''MovePosition'', ''Echelon'', ''LayerBank'', ''Meridian'', ''Satay''}
   \<and> (\<forall>(constant, name) \<in> set known_platforms. \<forall>h s rest.
         toLowerCase h = drop 2 constant
         \<and> vault_strategies vault = s # rest
         \<and> (concreteAddress s = h \<or> concreteAddress s = ''0x'' @ h)
         \<longrightarrow> getPlatformName vault = name)
   \<and> TransactionBuilder_isMovePosition vault = isMovePosition vault
   \<and> TransactionBuilder_isEchelon vault = isEchelon vault"
proof -
  have empty: "vault_strategies vault = [] \<longrightarrow> getPlatformName vault = ''Satay''"
    by (simp add: getPlatformName_def isMovePosition_def isEchelon_def isLayerBank_def
          isMeridian_def first_concrete_is_def)
  have total: "getPlatformName vault
                 \<in> {''MovePosition'', ''Echelon'', ''LayerBank'', ''Meridian'', ''Satay''}"
    by (simp add: getPlatformName_def)
  have spelled: "\<forall>(constant, name) \<in> set known_platforms. \<forall>h s rest.
         toLowerCase h = drop 2 constant
         \<and> vault_strategies vault = s # rest
         \<and> (concreteAddress s = h \<or> concreteAddress s = ''0x'' @ h)
         \<longrightarrow> getPlatformName vault = name"
    using platform_of_spelling by blast
  have builder: "TransactionBuilder_isMovePosition vault = isMovePosition vault"
    "TransactionBuilder_isEchelon vault = isEchelon vault"
    by (simp_all add: TransactionBuilder_isMovePosition_def TransactionBuilder_isEchelon_def
          isMovePosition_def isEchelon_def TransactionBuilder_first_concrete)
  show ?thesis
    using empty total spelled builder by blast
qed

theorem platform_classification_witness:
  "(LAYERBANK_SIMPLE_CONCRETE_ADDRESS, ''LayerBank'') \<in> set known_platforms
   \<and> toLowerCase ''AD1b34939F164ec6f6c0157DA3a30bf9e5d408250978691872a79aa584852B85''
       = drop 2 LAYERBANK_SIMPLE_CONCRETE_ADDRESS
   \<and> getPlatformName
       \<lparr>assetAddress = ''0xa'', sharesAddress = ''0xb'', pairedCoinType = None,
        vault_strategies =
          [\<lparr>strategyAddress = ''0xS1'',
            concreteAddress =
              ''0xAD1b34939F164ec6f6c0157DA3a30bf9e5d408250978691872a79aa584852B85''\<rparr>]\<rparr>
       = ''LayerBank''
   \<and> getPlatformName
       \<lparr>assetAddress = ''0xa'', sharesAddress = ''0xb'', pairedCoinType = None,
        vault_strategies = []\<rparr> = ''Satay''"
proof -
  let ?h = "''AD1b34939F164ec6f6c0157DA3a30bf9e5d408250978691872a79aa584852B85''"
  let ?s = "\<lparr>strategyAddress = ''0xS1'', concreteAddress = ''0x'' @ ?h\<rparr>"
  let ?v = "\<lparr>assetAddress = ''0xa'', sharesAddress = ''0xb'', pairedCoinType = None,
             vault_strategies = [?s]\<rparr>"
  let ?e = "\<lparr>assetAddress = ''0xa'', sharesAddress = ''0xb'', pairedCoinType = None,
             vault_strategies = []\<rparr>"
  have mem: "(LAYERBANK_SIMPLE_CONCRETE_ADDRESS, ''LayerBank'') \<in> set known_platforms"
    by (simp add: known_platforms_def)
  have low: "toLowerCase ?h = drop 2 LAYERBANK_SIMPLE_CONCRETE_ADDRESS"
    by code_simp
  have "\<forall>(constant, name) \<in> set known_platforms. \<forall>h s rest.
         toLowerCase h = drop 2 constant
         \<and> vault_strategies ?v = s # rest
         \<and> (concreteAddress s = h \<or> concreteAddress s = ''0x'' @ h)
         \<longrightarrow> getPlatformName ?v = name"
    using platform_classification [of ?v] by blast
  with mem have "\<forall>h s rest.
         toLowerCase h = drop 2 LAYERBANK_SIMPLE_CONCRETE_ADDRESS
         \<and> vault_strategies ?v = s # rest
         \<and> (concreteAddress s = h \<or> concreteAddress s = ''0x'' @ h)
         \<longrightarrow> getPlatformName ?v = ''LayerBank''"
    by blast
  then have "toLowerCase ?h = drop 2 LAYERBANK_SIMPLE_CONCRETE_ADDRESS
         \<and> vault_strategies ?v = ?s # []
         \<and> (concreteAddress ?s = ?h \<or> concreteAddress ?s = ''0x'' @ ?h)
         \<longrightarrow> getPlatformName ?v = ''LayerBank''"
    by blast
  with low have layer: "getPlatformName ?v = ''LayerBank''"
    by simp
  have satay: "getPlatformName ?e = ''Satay''"
    using platform_classification [of ?e] by simp
  show ?thesis
    using mem low layer satay by simp
qed

text \<open>
  The prefix is tested before the text is lower-cased, so an upper-case prefix \<open>0X\<close>
  is not stripped: the MovePosition constant written in capitals throughout lower-cases
  to the constant and still classifies as Satay.
\<close>

theorem platform_classification_upper_prefix_counterexample:
  "toLowerCase ''0XD7C7B27E361434E18D2410FD02F7140A8C10D174C9BE0EFD5324578D243953BD''
     = MOVEPOSITION_SIMPLE_CONCRETE_ADDRESS
   \<and> getPlatformName
       \<lparr>assetAddress = ''0xa'', sharesAddress = ''0xb'', pairedCoinType = None,
        vault_strategies =
          [\<lparr>strategyAddress = ''0xS1'',
            concreteAddress =
              ''0XD7C7B27E361434E18D2410FD02F7140A8C10D174C9BE0EFD5324578D243953BD''\<rparr>]\<rparr>
       = ''Satay''
   \<and> \<not> TransactionBuilder_isMovePosition
       \<lparr>assetAddress = ''0xa'', sharesAddress = ''0xb'', pairedCoinType = None,
        vault_strategies =
          [\<lparr>strategyAddress = ''0xS1'',
            concreteAddress =
              ''0XD7C7B27E361434E18D2410FD02F7140A8C10D174C9BE0EFD5324578D243953BD''\<rparr>]\<rparr>"
  by code_simp

section \<open>Decimal scaling round trip\<close>

lemma char_of_48: "char_of (48::nat) = CHR ''0''"
  by code_simp

lemma digit_char_digit_value: "is_digit c \<Longrightarrow> digit_char (digit_value c) = c"
  by (simp add: is_digit_def digit_char_def digit_value_def)

lemma digit_value_less: "is_digit c \<Longrightarrow> digit_value c < 10"
  by (auto simp: is_digit_def digit_value_def)

lemma digit_value_zero: "is_digit c \<Longrightarrow> digit_value c = 0 \<longleftrightarrow> c = CHR ''0''"
proof
  assume d: "is_digit c" and z: "digit_value c = 0"
  then have "(of_char c :: nat) = 48"
    by (auto simp: is_digit_def digit_value_def)
  then have "char_of (of_char c :: nat) = (char_of (48::nat) :: char)"
    by simp
  then show "c = CHR ''0''"
    by (simp add: char_of_48)
next
  assume "c = CHR ''0''"
  then show "digit_value c = 0" by (simp add: digit_value_def)
qed

lemma is_digit_zero: "is_digit (CHR ''0'')"
  by (simp add: is_digit_def)

lemma is_digit_not_dot: "is_digit c \<Longrightarrow> c \<noteq> CHR ''.''"
  by (auto simp: is_digit_def)

lemma digits_value_snoc: "digits_value (ds @ [c]) = 10 * digits_value ds + digit_value c"
  by (simp add: digits_value_def)

lemma nat_toString_step:
  "k < 10 \<Longrightarrow> nat_toString (10 * v + k)
     = (if v = 0 then [digit_char k] else nat_toString v @ [digit_char k])"
  by (subst nat_toString.simps) auto

lemma digits_value_zero_iff:
  "list_all is_digit ds \<Longrightarrow> digits_value ds = 0 \<longleftrightarrow> dropWhile (\<lambda>c. c = CHR ''0'') ds = []"
proof (induction ds rule: rev_induct)
  case Nil
  then show ?case by (simp add: digits_value_def)
next
  case (snoc c ds)
  then have d: "is_digit c" and ds: "list_all is_digit ds" by simp_all
  show ?case
    using snoc.IH [OF ds] digit_value_zero [OF d]
    by (auto simp: digits_value_snoc dropWhile_append)
qed

lemma nat_toString_digits_value:
  "list_all is_digit ds \<Longrightarrow> nat_toString (digits_value ds) = canonical_digits ds"
proof (induction ds rule: rev_induct)
  case Nil
  show ?case
    by (subst nat_toString.simps)
       (simp add: digits_value_def canonical_digits_def digit_char_def char_of_48)
next
  case (snoc c ds)
  then have d: "is_digit c" and ds: "list_all is_digit ds" by simp_all
  have step: "nat_toString (digits_value (ds @ [c]))
      = (if digits_value ds = 0 then [c] else nat_toString (digits_value ds) @ [c])"
    by (simp add: digits_value_snoc nat_toString_step digit_value_less [OF d]
          digit_char_digit_value [OF d])
  show ?case
  proof (cases "dropWhile (\<lambda>c. c = CHR ''0'') ds = []")
    case True
    then have z: "digits_value ds = 0"
      using digits_value_zero_iff [OF ds] by simp
    from True have "\<forall>x\<in>set ds. x = CHR ''0''"
      by simp
    then have "dropWhile (\<lambda>c. c = CHR ''0'') (ds @ [c]) = dropWhile (\<lambda>c. c = CHR ''0'') [c]"
      by (simp add: dropWhile_append)
    then show ?thesis
      using step z by (auto simp: canonical_digits_def)
  next
    case False
    then have nz: "digits_value ds \<noteq> 0"
      using digits_value_zero_iff [OF ds] by simp
    from False have "\<not> (\<forall>x\<in>set ds. x = CHR ''0'')"
      by simp
    then have "dropWhile (\<lambda>c. c = CHR ''0'') (ds @ [c]) = dropWhile (\<lambda>c. c = CHR ''0'') ds @ [c]"
      by (auto simp: dropWhile_append)
    then show ?thesis
      using step nz False snoc.IH [OF ds] by (auto simp: canonical_digits_def)
  qed
qed

lemma takeWhile_zero_replicate:
  "takeWhile (\<lambda>c. c = CHR ''0'') p = replicate (length (takeWhile (\<lambda>c. c = CHR ''0'') p)) (CHR ''0'')"
  by (induction p) auto

lemma padStart_canonical:
  assumes "w \<noteq> []" and "w = ''0'' \<or> hd w \<noteq> CHR ''0''"
  shows "padStart (length p + 1) (CHR ''0'') (canonical_digits (w @ p)) = w @ p"
proof (cases "hd w = CHR ''0''")
  case False
  with assms(1) have "dropWhile (\<lambda>c. c = CHR ''0'') (w @ p) = w @ p"
    by (cases w) auto
  moreover have "Suc 0 \<le> length w"
    using assms(1) by (cases w) auto
  ultimately show ?thesis
    using assms(1) by (simp add: canonical_digits_def padStart_def)
next
  case True
  with assms have w: "w = ''0''" by auto
  let ?t = "dropWhile (\<lambda>c. c = CHR ''0'') p"
  let ?z = "takeWhile (\<lambda>c. c = CHR ''0'') p"
  have split: "p = ?z @ ?t" by simp
  have len: "length p = length ?z + length ?t"
    by (metis length_append takeWhile_dropWhile_id)
  have drop: "dropWhile (\<lambda>c. c = CHR ''0'') (w @ p) = ?t"
    using w by simp
  show ?thesis
  proof (cases "?t = []")
    case True
    then have "p = replicate (length p) (CHR ''0'')"
      using split takeWhile_zero_replicate [of p] len by (metis append_Nil2)
    then have "w @ p = replicate (length p + 1) (CHR ''0'')"
      using w by (metis Suc_eq_plus1 append_Cons append_Nil replicate_Suc)
    moreover have "padStart (length p + 1) (CHR ''0'') (canonical_digits (w @ p))
        = replicate (length p) (CHR ''0'') @ ''0''"
      using True drop by (simp add: canonical_digits_def padStart_def)
    ultimately show ?thesis
      by (simp add: replicate_append_same)
  next
    case False
    have "padStart (length p + 1) (CHR ''0'') (canonical_digits (w @ p))
        = replicate (length p + 1 - length ?t) (CHR ''0'') @ ?t"
      using False drop by (auto simp: canonical_digits_def padStart_def)
    also have "length p + 1 - length ?t = Suc (length ?z)"
      using len by simp
    also have "replicate (Suc (length ?z)) (CHR ''0'') @ ?t = CHR ''0'' # (?z @ ?t)"
      using takeWhile_zero_replicate [of p] by simp
    finally show ?thesis
      using w by simp
  qed
qed

lemma strip_trailing_zeros_append_zeros:
  "strip_trailing_zeros (xs @ replicate n (CHR ''0'')) = strip_trailing_zeros xs"
  by (simp add: strip_trailing_zeros_def dropWhile_append3 dropWhile_append)

lemma strip_padded_fraction:
  "strip_trailing_zeros (take d (padEnd d (CHR ''0'') f)) = strip_trailing_zeros (take d f)"
proof (cases "length f \<le> d")
  case True
  then have "take d (padEnd d (CHR ''0'') f) = f @ replicate (d - length f) (CHR ''0'')"
    by (simp add: padEnd_def)
  with True show ?thesis
    by (simp add: strip_trailing_zeros_append_zeros)
next
  case False
  then show ?thesis by (simp add: padEnd_def)
qed

lemma length_padded_fraction: "length (take d (padEnd d (CHR ''0'') f)) = d"
  by (simp add: padEnd_def)

lemma split_on_no_sep: "sep \<notin> set s \<Longrightarrow> split_on sep s = [s]"
  by (induction s) auto

lemma split_on_one_sep:
  "sep \<notin> set w \<Longrightarrow> sep \<notin> set f \<Longrightarrow> split_on sep (w @ sep # f) = [w, f]"
  by (induction w) (auto simp: split_on_no_sep)

lemma scaleToDecimals_decimal_text:
  assumes "list_all is_digit w" and "list_all is_digit f"
  shows "scaleToDecimals (decimal_text w f) d
         = Inr (int (digits_value (w @ take d (padEnd d (CHR ''0'') f))))"
proof -
  have nodot: "CHR ''.'' \<notin> set w" "CHR ''.'' \<notin> set f"
    using assms is_digit_not_dot by (auto simp: list_all_iff)
  have segs: "split_on (CHR ''.'') (decimal_text w f) = (if f = [] then [w] else [w, f])"
    using nodot by (simp add: decimal_text_def split_on_no_sep split_on_one_sep)
  have digs: "list_all is_digit (w @ take d (padEnd d (CHR ''0'') f))"
    using assms is_digit_zero
    by (auto simp: list_all_iff padEnd_def dest: in_set_takeD)
  show ?thesis
    using segs digs by (cases "f = []") (simp_all add: scaleToDecimals_def BigInt_of_string_def)
qed

lemma scaleFromDecimals_digits:
  assumes "list_all is_digit w" and "w \<noteq> []" and "w = ''0'' \<or> hd w \<noteq> CHR ''0''"
    and "list_all is_digit p" and "length p = d"
  shows "scaleFromDecimals (int (digits_value (w @ p))) d
         = decimal_text w (strip_trailing_zeros p)"
proof -
  have "bigint_toString (int (digits_value (w @ p))) = canonical_digits (w @ p)"
    using assms(1,4) by (simp add: bigint_toString_def nat_toString_digits_value)
  then have str: "padStart (d + 1) (CHR ''0'') (bigint_toString (int (digits_value (w @ p))))
                  = w @ p"
    using padStart_canonical [OF assms(2,3), of p] assms(5) by simp
  show ?thesis
    unfolding scaleFromDecimals_def Let_def str
    using assms(2,5) by (simp add: decimal_text_def)
qed

text \<open>
  C9, as amended. Let \<open>s\<close> be a non-negative decimal string with whole part \<open>w\<close>
  (a non-empty run of digits without a superfluous leading zero) and fractional digits
  \<open>f\<close> (possibly none), and let \<open>d\<close> be any decimal count. Then \<open>scaleToDecimals\<close>
  returns a value \<open>n\<close>, and \<open>scaleFromDecimals n d\<close> is \<open>s\<close> with its fraction cut to
  the first \<open>d\<close> digits and the trailing zeros of what is left stripped, with no decimal
  point when nothing is left. When \<open>s\<close> has at most \<open>d\<close> fractional digits, this is
  \<open>s\<close> with its trailing fractional zeros stripped.
\<close>

theorem scale_round_trip:
  assumes "list_all is_digit w" and "w \<noteq> []" and "w = ''0'' \<or> hd w \<noteq> CHR ''0''"
    and "list_all is_digit f"
  shows "\<exists>n. scaleToDecimals (decimal_text w f) d = Inr n
             \<and> scaleFromDecimals n d = decimal_text w (strip_trailing_zeros (take d f))
             \<and> (length f \<le> d \<longrightarrow>
                  scaleFromDecimals n d = decimal_text w (strip_trailing_zeros f))"
proof -
  let ?p = "take d (padEnd d (CHR ''0'') f)"
  have digs: "list_all is_digit ?p"
    using assms(4) is_digit_zero by (auto simp: list_all_iff padEnd_def dest: in_set_takeD)
  have "scaleFromDecimals (int (digits_value (w @ ?p))) d
          = decimal_text w (strip_trailing_zeros (take d f))"
    using scaleFromDecimals_digits [OF assms(1-3) digs length_padded_fraction]
    by (simp add: strip_padded_fraction)
  then show ?thesis
    using scaleToDecimals_decimal_text [OF assms(1,4), of d] by simp
qed

theorem scale_round_trip_witness:
  "list_all is_digit ''1'' \<and> list_all is_digit ''50''
   \<and> scaleToDecimals ''1.50'' 3 = Inr 1500
   \<and> scaleFromDecimals 1500 3 = ''1.5''
   \<and> scaleToDecimals ''7.0'' 1 = Inr 70
   \<and> scaleFromDecimals 70 1 = ''7''"
proof -
  have d: "list_all is_digit ''1''" "list_all is_digit ''50''" "list_all is_digit ''7''"
    "list_all is_digit ''0''"
    by (simp_all add: is_digit_def)
  have a: "scaleToDecimals ''1.50'' 3 = Inr 1500"
    "scaleToDecimals ''7.0'' 1 = Inr 70"
    by code_simp+
  from scale_round_trip [OF d(1) _ _ d(2), of 3] a(1)
  have "scaleFromDecimals 1500 3 = decimal_text ''1'' (strip_trailing_zeros ''50'')"
    by (simp add: decimal_text_def)
  then have b: "scaleFromDecimals 1500 3 = ''1.5''"
    by (simp add: decimal_text_def strip_trailing_zeros_def)
  from scale_round_trip [OF d(3) _ _ d(4), of 1] a(2)
  have "scaleFromDecimals 70 1 = decimal_text ''7'' (strip_trailing_zeros ''0'')"
    by (simp add: decimal_text_def)
  then have c: "scaleFromDecimals 70 1 = ''7''"
    by (simp add: decimal_text_def strip_trailing_zeros_def)
  show ?thesis using d a b c by simp
qed

theorem scale_round_trip_counterexample:
  "scaleToDecimals ''1.23'' 1 = Inr 12 \<and> scaleFromDecimals 12 1 = ''1.2''
   \<and> ''1.2'' \<noteq> ''1.23''
   \<and> scaleToDecimals ''007'' 0 = Inr 7 \<and> scaleFromDecimals 7 0 = ''7'' \<and> ''7'' \<noteq> ''007''"
  by code_simp

section \<open>Staking pool resolution\<close>

lemma inherited_member_not_0x:
  "startsWith key ''0x'' \<Longrightarrow> key \<notin> set Object_prototype_members"
  by (auto simp: Object_prototype_members_def startsWith_def)

text \<open>
  For the tokens that \<open>stakeVaultShares\<close> lets through, \<open>hasStaticPoolMapping\<close> is the
  \<^verbatim>\<open>in\<close> operator on the table, inherited property names included.
\<close>

lemma hasStaticPoolMapping_in_operator:
  "startsWith stakingToken ''0x'' \<Longrightarrow>
   hasStaticPoolMapping stakingToken
     = in_operator (map fst STAKING_TOKEN_POOL_MAPPINGS) stakingToken"
  using inherited_member_not_0x [of stakingToken]
  by (auto simp: hasStaticPoolMapping_def in_operator_def map_of_eq_None_iff)

text \<open>
  The key under which \<open>generatePacketsIfNeeded\<close> reads the virtual coin map begins with
  \<^verbatim>\<open>0x\<close>, so that read finds own entries only.
\<close>

lemma virtualCoinMap_read_own:
  "read_property m (TransactionBuilder_normalizeAddress a)
     = (case m (TransactionBuilder_normalizeAddress a) of
          Some v \<Rightarrow> OwnValue v | None \<Rightarrow> Undefined)"
proof -
  have "startsWith (TransactionBuilder_normalizeAddress a) ''0x''"
    by (simp add: TransactionBuilder_normalizeAddress_def startsWith_def Let_def)
  from inherited_member_not_0x [OF this] show ?thesis
    by (simp add: read_property_def)
qed


lemma resolve_poolIds_nonempty:
  "resolve_poolIds env poolAddresses stakingToken = Inr poolIds \<Longrightarrow> poolIds \<noteq> []"
  by (auto simp: resolve_poolIds_def Let_def split: if_splits sum.splits)






section \<open>Subscription filtering\<close>

lemma Promise_all_checks:
  "Promise_all (map (subscription_check env u) poolIds)
     = Inr (map (\<lambda>p. (p, is_user_subscribed_view env u p = Inr True)) poolIds)"
proof (induction poolIds)
  case Nil
  show ?case by simp
next
  case (Cons p ps)
  have "subscription_check env u p = Inr (p, is_user_subscribed_view env u p = Inr True)"
    by (auto simp: subscription_check_def isUserSubscribed_def split: sum.splits)
  with Cons show ?case by simp
qed

lemma unsubscribed_of_checks:
  "map fst (filter (\<lambda>(poolId, isSubscribed). \<not> isSubscribed) (map (\<lambda>p. (p, P p)) poolIds))
     = filter (\<lambda>p. \<not> P p) poolIds"
  by (induction poolIds) simp_all

lemma getUnsubscribedPools_eq:
  "getUnsubscribedPools env u poolIds
     = filter (\<lambda>p. is_user_subscribed_view env u p \<noteq> Inr True) poolIds"
  by (simp add: getUnsubscribedPools_def Promise_all_checks unsubscribed_of_batch_def
        unsubscribed_of_checks)

text \<open>
  C6. When a non-empty user address is supplied and the pools resolve, the payload that
  \<open>stakeVaultShares\<close> builds lists exactly the resolved pools for which the subscription
  check did not answer "subscribed", in their order: a check that fails counts as not
  subscribed, and if the batch of checks as a whole throws, all candidate pools are
  taken. If that list is non-empty, the payload calls the stake-and-subscribe entry point
  with the token, the amount and the list; if it is empty, the payload calls the plain
  stake entry point with the token and the amount only.
\<close>

theorem stakeVaultShares_subscription_filter:
  assumes "stakingToken \<noteq> []" and "startsWith stakingToken ''0x''" and "0 < amount"
    and "userAddress \<noteq> []"
    and "resolve_poolIds env poolAddresses stakingToken = Inr poolIds"
  shows "getUnsubscribedPools env userAddress poolIds
           = filter (\<lambda>p. is_user_subscribed_view env userAddress p \<noteq> Inr True) poolIds
         \<and> (\<forall>e. unsubscribed_of_batch poolIds (Inl e) = poolIds)
         \<and> stakeVaultShares abis env stakingToken amount (Some userAddress) poolAddresses
           = Inr (if getUnsubscribedPools env userAddress poolIds \<noteq> [] then
                    \<lparr>function_id = MULTI_REWARDS_ROUTER_ABI_address abis
                                     @ ''::router::stake_and_subscribe_fa'',
                     typeArguments = [],
                     functionArguments =
                       [ArgString stakingToken, ArgString (bigint_toString amount),
                        ArgStrings (getUnsubscribedPools env userAddress poolIds)]\<rparr>
                  else
                    \<lparr>function_id = MULTI_REWARDS_ABI_address abis @ ''::multi_rewards::stake'',
                     typeArguments = [],
                     functionArguments =
                       [ArgString stakingToken, ArgString (bigint_toString amount)]\<rparr>)"
proof -
  have batch: "\<forall>e. unsubscribed_of_batch poolIds (Inl e) = poolIds"
    by (simp add: unsubscribed_of_batch_def)
  have "stakeVaultShares abis env stakingToken amount (Some userAddress) poolAddresses
          = Inr (stake_payload abis env stakingToken amount (Some userAddress) poolIds)"
    using assms by (simp add: stakeVaultShares_def)
  then show ?thesis
    using assms(4) batch getUnsubscribedPools_eq [of env userAddress poolIds]
    by (simp add: stake_payload_def)
qed

theorem stakeVaultShares_subscription_filter_witness:
  "resolve_poolIds sample_staking_env (Some [''0xP1'', ''0xP2'', ''0xP3'']) ''0xabc''
     = Inr [''0xP1'', ''0xP2'', ''0xP3'']
   \<and> stakeVaultShares sample_abis sample_staking_env ''0xabc'' 5 (Some ''0xU'')
        (Some [''0xP1'', ''0xP2'', ''0xP3''])
      = Inr \<lparr>function_id = ''0xMR::router::stake_and_subscribe_fa'', typeArguments = [],
             functionArguments =
               [ArgString ''0xabc'', ArgString (bigint_toString 5), ArgStrings [''0xP1'', ''0xP2'']]\<rparr>
   \<and> resolve_poolIds sample_staking_env (Some [''0xP3'', ''0xP4'']) ''0xabc''
     = Inr [''0xP3'', ''0xP4'']
   \<and> stakeVaultShares sample_abis sample_staking_env ''0xabc'' 5 (Some ''0xU'')
        (Some [''0xP3'', ''0xP4''])
      = Inr \<lparr>function_id = ''0xM::multi_rewards::stake'', typeArguments = [],
             functionArguments = [ArgString ''0xabc'', ArgString (bigint_toString 5)]\<rparr>"
proof -
  have v: "''0xabc'' \<noteq> []" "startsWith ''0xabc'' ''0x''" "(0::int) < 5" "''0xU'' \<noteq> []"
    by (simp_all add: startsWith_def)
  have r1: "resolve_poolIds sample_staking_env (Some [''0xP1'', ''0xP2'', ''0xP3'']) ''0xabc''
     = Inr [''0xP1'', ''0xP2'', ''0xP3'']"
    by (simp add: resolve_poolIds_def)
  have r2: "resolve_poolIds sample_staking_env (Some [''0xP3'', ''0xP4'']) ''0xabc''
     = Inr [''0xP3'', ''0xP4'']"
    by (simp add: resolve_poolIds_def)
  show ?thesis
    using stakeVaultShares_subscription_filter [OF v r1, of sample_abis]
      stakeVaultShares_subscription_filter [OF v r2, of sample_abis] r1 r2
    by (simp add: sample_staking_env_def sample_abis_def)
qed

section \<open>Unstake dispatch\<close>

lemma includes_separator_not_hex:
  "str_includes s ''::'' \<Longrightarrow> \<not> list_all is_hex_char s"
proof (induction s)
  case Nil
  then show ?case by simp
next
  case (Cons c cs)
  show ?case
  proof (cases "take 2 (c # cs) = ''::''")
    case True
    then have "c = CHR '':''"
      by (simp add: numeral_2_eq_2)
    then show ?thesis
      by (simp add: is_hex_char_def)
  next
    case False
    with Cons.prems have "str_includes cs ''::''"
      by (auto simp: numeral_2_eq_2)
    with Cons.IH show ?thesis by simp
  qed
qed

lemma includes_drop:
  "str_includes s part \<Longrightarrow> part \<noteq> [] \<Longrightarrow> hd part \<notin> set (take n s) \<Longrightarrow> str_includes (drop n s) part"
proof (induction s arbitrary: n)
  case Nil
  then show ?case by simp
next
  case (Cons c cs)
  show ?case
  proof (cases n)
    case 0
    with Cons.prems show ?thesis by simp
  next
    case (Suc m)
    with Cons.prems(3) have c: "c \<noteq> hd part" and rest: "hd part \<notin> set (take m cs)"
      by auto
    from c Cons.prems(2) have "take (length part) (c # cs) \<noteq> part"
      by (cases part) auto
    with Cons.prems(1) have "str_includes cs part" by simp
    from Cons.IH [OF this Cons.prems(2) rest] Suc show ?thesis by simp
  qed
qed

lemma coin_type_not_valid_address:
  assumes "str_includes tokenAddress ''::''"
  shows "\<not> isValidAddress tokenAddress"
proof -
  have "\<not> list_all is_hex_char (if startsWith tokenAddress ''0x'' then drop 2 tokenAddress
                                 else tokenAddress)"
  proof (cases "startsWith tokenAddress ''0x''")
    case True
    then have "take 2 tokenAddress = ''0x''"
      by (simp add: startsWith_def numeral_2_eq_2)
    then have "set (take 2 tokenAddress) = {CHR ''0'', CHR ''x''}"
      by simp
    then have "hd ''::'' \<notin> set (take 2 tokenAddress)"
      by simp
    from includes_drop [OF assms _ this] have "str_includes (drop 2 tokenAddress) ''::''"
      by simp
    with True show ?thesis
      by (simp add: includes_separator_not_hex)
  next
    case False
    with assms show ?thesis
      by (simp add: includes_separator_not_hex)
  qed
  then show ?thesis
    by (simp add: isValidAddress_def AccountAddress_from_succeeds_def Let_def)
qed

text \<open>
  A token identifier that contains the module-path separator never passes
  \<open>validateAddress\<close>, so the coin-type branch of \<open>unstake\<close> cannot be reached.
\<close>

lemma unstake_rejects_every_coin_type:
  assumes "str_includes tokenAddress ''::''"
  shows "unstake abis tokenAddress amount
         = Inl (CanopyError ''Invalid token address format'' INVALID_TOKEN_ADDRESS)"
proof -
  have "tokenAddress \<noteq> []"
    using assms by auto
  with coin_type_not_valid_address [OF assms] show ?thesis
    by (simp add: unstake_def validateAddress_def)
qed

text \<open>
  C7, at the claim's own input. \<open>unstake("0x1::aptos_coin::AptosCoin", amount)\<close> does not
  reach the coin-type withdraw entry point: for every amount it throws
  \<open>INVALID_TOKEN_ADDRESS\<close>, because \<open>validateAddress\<close> accepts hexadecimal addresses only.
\<close>

theorem unstake_coin_type_throws:
  "unstake abis ''0x1::aptos_coin::AptosCoin'' amount
   = Inl (CanopyError ''Invalid token address format'' INVALID_TOKEN_ADDRESS)"
  by (rule unstake_rejects_every_coin_type) (simp add: numeral_2_eq_2)

text \<open>
  The client that validates with \<open>validateInputs\<close> routes the same call to
  \<^verbatim>\<open>router::withdraw\<close> with the coin type as the type argument.
\<close>

lemma unstake_validateInputs_coin_type:
  "0 < amount \<Longrightarrow>
   unstake_validateInputs abis ''0x1::aptos_coin::AptosCoin'' amount
   = Inr \<lparr>function_id = MULTI_REWARDS_ROUTER_ABI_address abis @ ''::router::withdraw'',
          typeArguments = [''0x1::aptos_coin::AptosCoin''],
          functionArguments = [ArgString (bigint_toString amount)]\<rparr>"
  by (simp add: unstake_validateInputs_def validateInputs_def startsWith_def withdraw_def
        numeral_2_eq_2)

text \<open>
  The fungible-asset half of the dispatch: a valid address that begins with \<^verbatim>\<open>0x\<close>
  contains no separator and is routed to \<^verbatim>\<open>multi_rewards::withdraw\<close>.
\<close>

lemma unstake_fungible_asset:
  assumes "0 < amount" and "isValidAddress tokenAddress" and "startsWith tokenAddress ''0x''"
  shows "unstake abis tokenAddress amount
         = Inr \<lparr>function_id = MULTI_REWARDS_ABI_address abis @ ''::multi_rewards::withdraw'',
                typeArguments = [],
                functionArguments =
                  [ArgString tokenAddress, ArgString (bigint_toString amount)]\<rparr>"
proof -
  have ne: "tokenAddress \<noteq> []"
    using assms(2) by (auto simp: isValidAddress_def)
  have "\<not> str_includes tokenAddress ''::''"
    using coin_type_not_valid_address assms(2) by blast
  with assms ne show ?thesis
    by (simp add: unstake_def validateAddress_def validateAmount_def withdrawFa_def)
qed

section \<open>Withdraw payload: maximum loss and minimum amount out\<close>

lemma movePosition_not_echelon:
  assumes "TransactionBuilder_isMovePosition vault"
  shows "\<not> TransactionBuilder_isEchelon vault"
proof -
  have "first_concrete_is normalizeAddress vault MOVEPOSITION_SIMPLE_CONCRETE_ADDRESS"
    using assms
    by (simp add: TransactionBuilder_isMovePosition_def TransactionBuilder_first_concrete)
  then have "\<not> first_concrete_is normalizeAddress vault ECHELON_SIMPLE_CONCRETE_ADDRESS"
    by (auto simp: first_concrete_is_def normalized_constants split: list.splits if_splits)
  then show ?thesis
    by (simp add: TransactionBuilder_isEchelon_def TransactionBuilder_first_concrete)
qed

lemma rethrow_or_wrap_Inr: "rethrow_or_wrap msg r = Inr v \<longleftrightarrow> r = Inr v"
proof (cases r)
  case (Inl e)
  then show ?thesis by (cases e) simp_all
next
  case (Inr w)
  then show ?thesis by simp
qed

lemma createWithdrawPayload_arguments:
  "length (functionArguments
             (createWithdrawPayload abis vault vaultAddr allocationMap packets shares maxLoss)) = 6
   \<and> functionArguments
         (createWithdrawPayload abis vault vaultAddr allocationMap packets shares maxLoss) ! 0
       = ArgString vaultAddr
   \<and> functionArguments
         (createWithdrawPayload abis vault vaultAddr allocationMap packets shares maxLoss) ! 3
       = ArgString (bigint_toString shares)
   \<and> functionArguments
         (createWithdrawPayload abis vault vaultAddr allocationMap packets shares maxLoss) ! 4
       = ArgString maxLoss
   \<and> functionArguments
         (createWithdrawPayload abis vault vaultAddr allocationMap packets shares maxLoss) ! 5
       = ArgString (if TransactionBuilder_isEchelon vault then ''0'' else ''100'')"
  by (simp add: createWithdrawPayload_def Let_def WITHDRAW_MIN_AMOUNT_OUT_def
        WITHDRAW_MIN_AMOUNT_OUT_MOVEPOSITION_def)

lemma buildWithdrawPayload_Inr:
  assumes "buildWithdrawPayload abis builder chain remote vaultAddr shares = Inr payload"
  shows "\<exists>vault allocationMap packets.
           vault_view chain vaultAddr = Inr vault
           \<and> payload = createWithdrawPayload abis vault vaultAddr allocationMap packets shares
                         DEFAULT_MAX_LOSS"
  using assms
  by (auto simp: buildWithdrawPayload_def getVaultDetails_def rethrow_or_wrap_Inr
        split: sum.splits)

text \<open>
  What \<open>buildWithdrawPayload\<close> passes: six function arguments, the fifth being the
  maximum loss, \<open>100\<close> by default, and the sixth the minimum amount out, which
  \<open>createWithdrawPayload\<close> chooses by its test for Echelon alone. A MovePosition vault gets
  the floor \<open>100\<close>.
\<close>

lemma buildWithdrawPayload_arguments:
  assumes "buildWithdrawPayload abis builder chain remote vaultAddr shares = Inr payload"
  shows "\<exists>vault. vault_view chain vaultAddr = Inr vault
           \<and> length (functionArguments payload) = 6
           \<and> functionArguments payload ! 4 = ArgString ''100''
           \<and> functionArguments payload ! 5
               = ArgString (if TransactionBuilder_isEchelon vault then ''0'' else ''100'')
           \<and> (TransactionBuilder_isMovePosition vault
                \<longrightarrow> functionArguments payload ! 5 = ArgString ''100'')"
proof -
  from buildWithdrawPayload_Inr [OF assms] obtain vault allocationMap packets where
    v: "vault_view chain vaultAddr = Inr vault" and
    p: "payload = createWithdrawPayload abis vault vaultAddr allocationMap packets shares
                    DEFAULT_MAX_LOSS"
    by blast
  have "length (functionArguments payload) = 6"
    and "functionArguments payload ! 4 = ArgString ''100''"
    and five: "functionArguments payload ! 5
               = ArgString (if TransactionBuilder_isEchelon vault then ''0'' else ''100'')"
    using createWithdrawPayload_arguments
            [of abis vault vaultAddr allocationMap packets shares DEFAULT_MAX_LOSS] p
    by (simp_all add: DEFAULT_MAX_LOSS_def)
  moreover have "TransactionBuilder_isMovePosition vault
                \<longrightarrow> functionArguments payload ! 5 = ArgString ''100''"
    using five movePosition_not_echelon by auto
  ultimately show ?thesis
    using v by blast
qed

text \<open>
  C8, at two failing inputs. A vault whose first strategy is LayerBank's and a vault
  without strategies (Satay) are not MovePosition vaults, yet the withdraw payload built
  for either carries the minimum amount out \<open>100\<close>, the value of
  \<^verbatim>\<open>WITHDRAW_MIN_AMOUNT_OUT_MOVEPOSITION\<close>, and not the default floor \<open>0\<close> of
  \<^verbatim>\<open>WITHDRAW_MIN_AMOUNT_OUT\<close>: the branch that is not Echelon's does not test for
  MovePosition. The maximum loss is \<open>100\<close> in both.
\<close>

theorem buildWithdrawPayload_strict_floor_without_movePosition:
  "buildWithdrawPayload sample_abis sample_builder layerbank_chain unreachable_remote
     ''0xV'' 10
   = Inr \<lparr>function_id = ''0xR::router::withdraw_fa_with_coin_type'',
          typeArguments =
            [''0x0000000000000000000000000000000000000000000000000000000000000001::aptos_coin::AptosCoin''],
          functionArguments =
            [ArgString ''0xV'', ArgStrings [], ArgBytesList [],
             ArgString ''10'', ArgString ''100'', ArgString ''100'']\<rparr>
   \<and> vault_view layerbank_chain ''0xV'' = Inr layerbank_vault
   \<and> getPlatformName layerbank_vault = ''LayerBank''
   \<and> \<not> TransactionBuilder_isMovePosition layerbank_vault
   \<and> buildWithdrawPayload sample_abis sample_builder (sample_chain False) unreachable_remote
     ''0xV'' 10
   = Inr \<lparr>function_id = ''0xR::router::withdraw_fa_with_coin_type'',
          typeArguments =
            [''0x0000000000000000000000000000000000000000000000000000000000000001::aptos_coin::AptosCoin''],
          functionArguments =
            [ArgString ''0xV'', ArgStrings [], ArgBytesList [],
             ArgString ''10'', ArgString ''100'', ArgString ''100'']\<rparr>
   \<and> vault_view (sample_chain False) ''0xV'' = Inr satay_vault
   \<and> getPlatformName satay_vault = ''Satay''
   \<and> \<not> TransactionBuilder_isMovePosition satay_vault
   \<and> WITHDRAW_MIN_AMOUNT_OUT = ''0''
   \<and> WITHDRAW_MIN_AMOUNT_OUT_MOVEPOSITION = ''100''"
  by code_simp

section \<open>No deposit or withdrawal consults the pause flag\<close>

lemma getVaultDetails_error:
  "getVaultDetails chain vaultAddr = Inl e \<Longrightarrow> error_code e = Some VAULT_NOT_FOUND"
  by (auto simp: getVaultDetails_def split: sum.splits)

lemma getOptimalAllocation_error:
  "getOptimalAllocation chain vaultAddr amount = Inl e
   \<Longrightarrow> error_code e = Some TRANSACTION_BUILD_FAILED"
  by (auto simp: getOptimalAllocation_def split: sum.splits)

lemma getAllocationMap_error:
  "getAllocationMap chain vaultAddr shares = Inl e
   \<Longrightarrow> error_code e = Some TRANSACTION_BUILD_FAILED"
  by (auto simp: getAllocationMap_def split: sum.splits)

lemma validateAllocation_error:
  "validateAllocation allocation amount = Inl e
   \<Longrightarrow> error_code e = Some TRANSACTION_BUILD_FAILED"
  by (auto simp: validateAllocation_def Let_def split: if_splits)

lemma generatePacketsIfNeeded_error:
  "generatePacketsIfNeeded abis builder remote vault strats amts operation vaultAddr = Inl e
   \<Longrightarrow> error_code e = Some PACKET_GENERATION_FAILED"
  by (auto simp: generatePacketsIfNeeded_def generatePackets_def Let_def split: if_splits)

lemma rethrow_or_wrap_error:
  assumes "rethrow_or_wrap msg r = Inl e"
  shows "error_code e = Some TRANSACTION_BUILD_FAILED
         \<or> (r = Inl e \<and> error_code e \<noteq> None)"
proof (cases r)
  case (Inl e')
  with assms show ?thesis by (cases e') auto
next
  case (Inr v)
  with assms show ?thesis by simp
qed

lemma buildDepositPayload_error:
  assumes "buildDepositPayload abis builder chain remote vaultAddr amount = Inl e"
  shows "error_code e \<in> {Some VAULT_NOT_FOUND, Some TRANSACTION_BUILD_FAILED,
                          Some PACKET_GENERATION_FAILED}"
  using rethrow_or_wrap_error [OF assms [unfolded buildDepositPayload_def]]
  by (auto split: sum.splits
        dest: getVaultDetails_error getOptimalAllocation_error validateAllocation_error
          generatePacketsIfNeeded_error)

lemma buildWithdrawPayload_error:
  assumes "buildWithdrawPayload abis builder chain remote vaultAddr shares = Inl e"
  shows "error_code e \<in> {Some VAULT_NOT_FOUND, Some TRANSACTION_BUILD_FAILED,
                          Some PACKET_GENERATION_FAILED}"
  using rethrow_or_wrap_error [OF assms [unfolded buildWithdrawPayload_def]]
  by (auto split: sum.splits
        dest: getVaultDetails_error getAllocationMap_error generatePacketsIfNeeded_error)

lemma validateVaultInputs_error:
  "validateVaultInputs vaultAddr amount operation_name = Inl e
   \<Longrightarrow> error_code e \<in> {Some INVALID_VAULT_ADDRESS, Some AMOUNT_TOO_SMALL}"
  by (auto simp: validateVaultInputs_def validateAddress_def validateAmount_def
        split: sum.splits if_splits)

lemma CanopyClient_deposit_error:
  assumes "CanopyClient_deposit abis net chain remote vaultAddr amount = Inl e"
  shows "error_code e \<noteq> Some VAULT_PAUSED"
proof (cases "validateVaultInputs vaultAddr amount ''deposit''")
  case (Inl e')
  with assms validateVaultInputs_error [OF Inl] show ?thesis
    by (auto simp: CanopyClient_deposit_def)
next
  case (Inr u)
  with assms have "rethrow_or_wrap ''Deposit failed''
            (buildDepositPayload abis
               \<lparr>builder_network = net, builder_movepositionConfig = None\<rparr>
               chain remote vaultAddr amount) = Inl e"
    by (simp add: CanopyClient_deposit_def)
  from rethrow_or_wrap_error [OF this] show ?thesis
    by (auto dest: buildDepositPayload_error)
qed

lemma CanopyClient_withdraw_error:
  assumes "CanopyClient_withdraw abis net chain remote vaultAddr shares = Inl e"
  shows "error_code e \<noteq> Some VAULT_PAUSED"
proof (cases "validateVaultInputs vaultAddr shares ''withdraw''")
  case (Inl e')
  with assms validateVaultInputs_error [OF Inl] show ?thesis
    by (auto simp: CanopyClient_withdraw_def)
next
  case (Inr u)
  with assms have "rethrow_or_wrap ''Withdrawal failed''
            (buildWithdrawPayload abis
               \<lparr>builder_network = net, builder_movepositionConfig = None\<rparr>
               chain remote vaultAddr shares) = Inl e"
    by (simp add: CanopyClient_withdraw_def)
  from rethrow_or_wrap_error [OF this] show ?thesis
    by (auto dest: buildWithdrawPayload_error)
qed

lemma getVaultDetails_ignores_pause:
  "getVaultDetails (chain\<lparr>is_paused_view := paused\<rparr>) vaultAddr = getVaultDetails chain vaultAddr"
  by (simp add: getVaultDetails_def)

lemma getOptimalAllocation_ignores_pause:
  "getOptimalAllocation (chain\<lparr>is_paused_view := paused\<rparr>) vaultAddr amount
   = getOptimalAllocation chain vaultAddr amount"
  by (simp add: getOptimalAllocation_def)

lemma getAllocationMap_ignores_pause:
  "getAllocationMap (chain\<lparr>is_paused_view := paused\<rparr>) vaultAddr shares
   = getAllocationMap chain vaultAddr shares"
  by (simp add: getAllocationMap_def)

lemma buildDepositPayload_ignores_pause:
  "buildDepositPayload abis builder (chain\<lparr>is_paused_view := paused\<rparr>) remote vaultAddr amount
   = buildDepositPayload abis builder chain remote vaultAddr amount"
  by (simp add: buildDepositPayload_def getVaultDetails_ignores_pause
        getOptimalAllocation_ignores_pause cong: sum.case_cong)

lemma buildWithdrawPayload_ignores_pause:
  "buildWithdrawPayload abis builder (chain\<lparr>is_paused_view := paused\<rparr>) remote vaultAddr shares
   = buildWithdrawPayload abis builder chain remote vaultAddr shares"
  by (simp add: buildWithdrawPayload_def getVaultDetails_ignores_pause
        getAllocationMap_ignores_pause cong: sum.case_cong)

lemma CanopyClient_ignores_pause:
  "CanopyClient_deposit abis net (chain\<lparr>is_paused_view := paused\<rparr>) remote vaultAddr amount
     = CanopyClient_deposit abis net chain remote vaultAddr amount"
  "CanopyClient_withdraw abis net (chain\<lparr>is_paused_view := paused\<rparr>) remote vaultAddr amount
     = CanopyClient_withdraw abis net chain remote vaultAddr amount"
  by (simp_all add: CanopyClient_deposit_def CanopyClient_withdraw_def
        buildDepositPayload_ignores_pause buildWithdrawPayload_ignores_pause
        cong: sum.case_cong)

text \<open>
  C10. For every vault address and amount, whatever the chain and the lending API
  answer, neither \<open>buildDepositPayload\<close> and \<open>buildWithdrawPayload\<close> nor the client's
  \<open>deposit\<close> and \<open>withdraw\<close> throw an error with the code \<open>VAULT_PAUSED\<close>, and their result
  does not depend on what the chain's pause flag says: the payload for a paused vault is
  the payload for the same vault when it is not paused.
\<close>

theorem deposit_withdraw_never_vault_paused:
  "(\<forall>msg. buildDepositPayload abis builder chain remote vaultAddr amount
            \<noteq> Inl (CanopyError msg VAULT_PAUSED))
   \<and> (\<forall>msg. buildWithdrawPayload abis builder chain remote vaultAddr amount
            \<noteq> Inl (CanopyError msg VAULT_PAUSED))
   \<and> (\<forall>msg. CanopyClient_deposit abis net chain remote vaultAddr amount
            \<noteq> Inl (CanopyError msg VAULT_PAUSED))
   \<and> (\<forall>msg. CanopyClient_withdraw abis net chain remote vaultAddr amount
            \<noteq> Inl (CanopyError msg VAULT_PAUSED))
   \<and> buildDepositPayload abis builder (chain\<lparr>is_paused_view := paused\<rparr>) remote vaultAddr amount
       = buildDepositPayload abis builder chain remote vaultAddr amount
   \<and> buildWithdrawPayload abis builder (chain\<lparr>is_paused_view := paused\<rparr>) remote vaultAddr amount
       = buildWithdrawPayload abis builder chain remote vaultAddr amount
   \<and> CanopyClient_deposit abis net (chain\<lparr>is_paused_view := paused\<rparr>) remote vaultAddr amount
       = CanopyClient_deposit abis net chain remote vaultAddr amount
   \<and> CanopyClient_withdraw abis net (chain\<lparr>is_paused_view := paused\<rparr>) remote vaultAddr amount
       = CanopyClient_withdraw abis net chain remote vaultAddr amount"
proof -
  have d: "buildDepositPayload abis builder chain remote vaultAddr amount
            \<noteq> Inl (CanopyError msg VAULT_PAUSED)" for msg
    using buildDepositPayload_error [of abis builder chain remote vaultAddr amount
            "CanopyError msg VAULT_PAUSED"]
    by auto
  have w: "buildWithdrawPayload abis builder chain remote vaultAddr amount
            \<noteq> Inl (CanopyError msg VAULT_PAUSED)" for msg
    using buildWithdrawPayload_error [of abis builder chain remote vaultAddr amount
            "CanopyError msg VAULT_PAUSED"]
    by auto
  have cd: "CanopyClient_deposit abis net chain remote vaultAddr amount
            \<noteq> Inl (CanopyError msg VAULT_PAUSED)" for msg
    using CanopyClient_deposit_error [of abis net chain remote vaultAddr amount
            "CanopyError msg VAULT_PAUSED"]
    by auto
  have cw: "CanopyClient_withdraw abis net chain remote vaultAddr amount
            \<noteq> Inl (CanopyError msg VAULT_PAUSED)" for msg
    using CanopyClient_withdraw_error [of abis net chain remote vaultAddr amount
            "CanopyError msg VAULT_PAUSED"]
    by auto
  show ?thesis
    using d w cd cw
    by (simp add: buildDepositPayload_ignores_pause buildWithdrawPayload_ignores_pause
          CanopyClient_ignores_pause)
qed

lemma sample_deposit_not_paused:
  "CanopyClient_deposit sample_abis ''movement-mainnet'' (sample_chain False) unreachable_remote
     ''0x5'' 10
   = Inr \<lparr>function_id = ''0xR::router::deposit_fa_with_coin_type'',
          typeArguments =
            [''0x0000000000000000000000000000000000000000000000000000000000000001::aptos_coin::AptosCoin''],
          functionArguments =
            [ArgString ''0x5'', ArgStrings [], ArgBytesList [],
             ArgString ''10'', ArgString ''0'']\<rparr>"
  by code_simp

theorem deposit_withdraw_never_vault_paused_witness:
  "checkVaultPaused (sample_chain True) ''0x5'' = Inr True
   \<and> CanopyClient_deposit sample_abis ''movement-mainnet'' (sample_chain True) unreachable_remote
        ''0x5'' 10
     = Inr \<lparr>function_id = ''0xR::router::deposit_fa_with_coin_type'',
            typeArguments =
              [''0x0000000000000000000000000000000000000000000000000000000000000001::aptos_coin::AptosCoin''],
            functionArguments =
              [ArgString ''0x5'', ArgStrings [], ArgBytesList [],
               ArgString ''10'', ArgString ''0'']\<rparr>"
proof -
  have chain: "sample_chain True = (sample_chain False)\<lparr>is_paused_view := (\<lambda>a. Inr True)\<rparr>"
    by (simp add: sample_chain_def)
  have paused: "checkVaultPaused (sample_chain True) ''0x5'' = Inr True"
    by (simp add: checkVaultPaused_def sample_chain_def)
  have "CanopyClient_deposit sample_abis ''movement-mainnet'' (sample_chain True)
          unreachable_remote ''0x5'' 10
        = CanopyClient_deposit sample_abis ''movement-mainnet'' (sample_chain False)
            unreachable_remote ''0x5'' 10"
    using deposit_withdraw_never_vault_paused
            [of sample_abis _ "sample_chain False" unreachable_remote "''0x5''" 10
                "''movement-mainnet''" "\<lambda>a. Inr True"]
    by (simp only: chain)
  with paused sample_deposit_not_paused show ?thesis
    by simp
qed

end
